theory Spec2Isabelle
  imports Complex_Main "HOL-Library.Sublist"
begin

section \<open>Text\<close>

text \<open>
  A JavaScript string is modelled by an Isabelle \<open>string\<close>: the bytes of its UTF-8
  encoding.  Every character the program tests for is ASCII, and a byte below 128 occurs in
  UTF-8 text only as that ASCII character, so \<open>startsWith\<close>, \<open>split(' ')\<close> and the
  regular expressions of \<open>TerminalManager.js\<close> read the bytes as they read the code units.
\<close>

abbreviation ESC :: char where "ESC \<equiv> CHR 0x1B"
abbreviation BEL :: char where "BEL \<equiv> CHR 0x07"

subsection \<open>Global replacement by the empty string\<close>

text \<open>
  \<open>s.replace(/re/g, '')\<close> scans \<open>s\<close> from the left.  At each position the expression
  either matches, and the scan goes on behind the match, or the character is kept and the
  scan moves one character on.  A matcher gives the length of the match that starts at the
  head of its argument; none of the expressions of the program matches the empty string.
\<close>

type_synonym matcher = "string \<Rightarrow> nat option"

function remove_all :: "matcher \<Rightarrow> string \<Rightarrow> string" where
  "remove_all m [] = []"
| "remove_all m (c # cs) =
     (case m (c # cs) of
        Some k \<Rightarrow> remove_all m (drop (k - 1) cs)
      | None \<Rightarrow> c # remove_all m cs)"
  by pat_completeness auto
termination
  by (relation "measure (\<lambda>(m, s). length s)") auto

text \<open>
  \<open>lit p\<close> then a run of at least \<open>n\<close> characters other than \<open>t\<close>, then \<open>t\<close>:
  the shape of \<open>/p[^t]*t/\<close> (\<open>n = 0\<close>) and of \<open>/p[^t]+t/\<close> (\<open>n = 1\<close>).  The run is
  greedy, and since it stops only at a \<open>t\<close> there is nothing to backtrack to.
\<close>

definition delimited :: "nat \<Rightarrow> char \<Rightarrow> string \<Rightarrow> nat option" where
  "delimited n t s =
     (let run = takeWhile (\<lambda>c. c \<noteq> t) s in
      if n \<le> length run \<and> length run < length s then Some (length run + 1) else None)"

text \<open>\<open>/\x1b\]0;[^\x07]*\x07/\<close>: the escape sequence that sets the window title.\<close>

definition title_seq :: matcher where
  "title_seq s =
     (if prefix [ESC, CHR '']'', CHR ''0'', CHR '';''] s
      then map_option (\<lambda>k. 4 + k) (delimited 0 BEL (drop 4 s))
      else None)"

definition strip_title :: "string \<Rightarrow> string" where
  "strip_title data = remove_all title_seq data"

text \<open>
  A title sequence is lodged in an introducer when it begins directly after ESC, after
  ESC \<open>]\<close> or after ESC \<open>]\<close> \<open>0\<close>: removing it closes the gap in that introducer.
  \<open>lodged s\<close> says so of the head of \<open>s\<close>; a chunk is \<open>title_detached\<close> when it holds at
  none of its positions (see the theorems on \<open>strip_title\<close>).
\<close>

definition lodged :: "string \<Rightarrow> bool" where
  "lodged s =
     list_ex (\<lambda>p. prefix p s \<and> title_seq (drop (length p) s) \<noteq> None)
       [[ESC], [ESC, CHR '']''], [ESC, CHR '']'', CHR ''0'']]"

fun title_detached :: "string \<Rightarrow> bool" where
  "title_detached [] = True"
| "title_detached (c # cs) = (\<not> lodged (c # cs) \<and> title_detached cs)"

subsection \<open>White space, \<open>trim\<close>, \<open>split\<close> and \<open>join\<close>\<close>

text \<open>
  The code points that \<open>trim\<close> removes and \<open>\s\<close> matches (ECMAScript WhiteSpace and
  LineTerminator), each as its UTF-8 bytes: TAB, LF, VT, FF, CR, SP, U+00A0, U+1680,
  U+2000 to U+200A, U+2028, U+2029, U+202F, U+205F, U+3000 and U+FEFF.
\<close>

definition white_space :: "string list" where
  "white_space =
     map (\<lambda>c. [c]) [CHR 0x09, CHR 0x0A, CHR 0x0B, CHR 0x0C, CHR 0x0D, CHR 0x20]
     @ [[CHR 0xC2, CHR 0xA0], [CHR 0xE1, CHR 0x9A, CHR 0x80]]
     @ map (\<lambda>c. [CHR 0xE2, CHR 0x80, c])
         [CHR 0x80, CHR 0x81, CHR 0x82, CHR 0x83, CHR 0x84, CHR 0x85, CHR 0x86, CHR 0x87,
          CHR 0x88, CHR 0x89, CHR 0x8A, CHR 0xA8, CHR 0xA9, CHR 0xAF]
     @ [[CHR 0xE2, CHR 0x81, CHR 0x9F], [CHR 0xE3, CHR 0x80, CHR 0x80],
        [CHR 0xEF, CHR 0xBB, CHR 0xBF]]"

text \<open>The line terminators, which \<open>.\<close> does not match: LF, CR, U+2028, U+2029.\<close>

definition line_terminators :: "string list" where
  "line_terminators =
     [[CHR 0x0A], [CHR 0x0D], [CHR 0xE2, CHR 0x80, CHR 0xA8], [CHR 0xE2, CHR 0x80, CHR 0xA9]]"

function drop_leading :: "string list \<Rightarrow> string \<Rightarrow> string" where
  "drop_leading ws s =
     (case find (\<lambda>w. w \<noteq> [] \<and> prefix w s) ws of
        Some w \<Rightarrow> drop_leading ws (drop (length w) s)
      | None \<Rightarrow> s)"
  by pat_completeness auto
termination
proof (relation "measure (\<lambda>(ws, s). length s)")
  fix ws :: "string list" and s w :: string
  assume "find (\<lambda>w. w \<noteq> [] \<and> prefix w s) ws = Some w"
  then have "w \<noteq> [] \<and> prefix w s"
    by (auto simp: find_Some_iff)
  then have "s \<noteq> [] \<and> 0 < length w"
    by auto
  then show "((ws, drop (length w) s), (ws, s)) \<in> measure (\<lambda>(ws, s). length s)"
    by simp
qed simp

function drop_trailing :: "string list \<Rightarrow> string \<Rightarrow> string" where
  "drop_trailing ws s =
     (case find (\<lambda>w. w \<noteq> [] \<and> suffix w s) ws of
        Some w \<Rightarrow> drop_trailing ws (take (length s - length w) s)
      | None \<Rightarrow> s)"
  by pat_completeness auto
termination
proof (relation "measure (\<lambda>(ws, s). length s)")
  fix ws :: "string list" and s w :: string
  assume "find (\<lambda>w. w \<noteq> [] \<and> suffix w s) ws = Some w"
  then have "w \<noteq> [] \<and> suffix w s"
    by (auto simp: find_Some_iff)
  then have "s \<noteq> [] \<and> 0 < length w"
    by auto
  then show "((ws, take (length s - length w) s), (ws, s)) \<in> measure (\<lambda>(ws, s). length s)"
    by simp
qed simp

definition trim :: "string \<Rightarrow> string" where
  "trim s = drop_trailing white_space (drop_leading white_space s)"

text \<open>
  \<open>s.split(d)\<close> for a one-character separator: the pieces between the separators, empty
  pieces included, so the result is never empty.  \<open>xs.join(sep)\<close> puts them together.
\<close>

fun split_on :: "char \<Rightarrow> string \<Rightarrow> string list" where
  "split_on d [] = [[]]"
| "split_on d (c # cs) =
     (let ws = split_on d cs in if c = d then [] # ws else (c # hd ws) # tl ws)"

fun join_with :: "string \<Rightarrow> string list \<Rightarrow> string" where
  "join_with sep [] = []"
| "join_with sep [w] = w"
| "join_with sep (w # ws) = w @ sep @ join_with sep ws"

text \<open>\<open>t\<close> occurs in \<open>s\<close> as a contiguous piece.\<close>

fun contains :: "string \<Rightarrow> string \<Rightarrow> bool" where
  "contains t [] = (t = [])"
| "contains t (c # cs) = (prefix t (c # cs) \<or> contains t cs)"

subsection \<open>JSON values\<close>

text \<open>
  What \<open>JSON.parse\<close> returns.  A number is a finite double, hence a rational.  An object
  is the list of its members; \<open>JSON.parse\<close> keeps the last of several members of one
  name, so the list is read as an object whose names are distinct.
\<close>

datatype json =
    JNull
  | JBool bool
  | JNum rat
  | JStr string
  | JArr "json list"
  | JObj "(string \<times> json) list"

text \<open>
  \<open>v.name\<close> for a value that is neither \<open>null\<close> nor \<open>undefined\<close>, and a name that
  no prototype defines (\<open>scripts\<close>, \<open>start\<close>, \<open>dev\<close>): \<open>None\<close> is \<open>undefined\<close>.
\<close>

fun get_member :: "json \<Rightarrow> string \<Rightarrow> json option" where
  "get_member (JObj ms) name = map_of ms name"
| "get_member _ name = None"

text \<open>The truth value that \<open>&&\<close> and \<open>!\<close> see.\<close>

fun truthy :: "json option \<Rightarrow> bool" where
  "truthy None = False"
| "truthy (Some JNull) = False"
| "truthy (Some (JBool b)) = b"
| "truthy (Some (JNum n)) = (n \<noteq> 0)"
| "truthy (Some (JStr s)) = (s \<noteq> [])"
| "truthy (Some (JArr _)) = True"
| "truthy (Some (JObj _)) = True"

section \<open>The host: operating system, \<open>path\<close>, file system\<close>

text \<open>
  \<open>TerminalManager.js\<close> calls Node's \<open>os\<close>, \<open>path\<close>, \<open>fs\<close>, \<open>child_process\<close> and
  \<open>node-pty\<close>.  What does not change while the server runs is a \<open>host\<close>: the platform,
  the two directories of \<open>os\<close> and the functions of \<open>path\<close> (those of \<open>path.posix\<close> or
  of \<open>path.win32\<close>, by platform).  The theorems hold for every host; \<open>posix_host\<close> below is
  the one of a POSIX system.
\<close>

record host =
  win32 :: bool
  tmpdir :: string
  homedir :: string
  path_join :: "string list \<Rightarrow> string"
  path_resolve :: "string \<Rightarrow> string \<Rightarrow> string"
  path_relative :: "string \<Rightarrow> string \<Rightarrow> string"

text \<open>
  What the outside answers during one call of a method: \<open>fs.existsSync\<close>;
  \<open>JSON.parse(fs.readFileSync(p, 'utf8'))\<close>, which is \<open>None\<close> when the read or the parse
  throws; and the message of the error that \<open>pty.spawn\<close> throws, \<open>None\<close> when it returns a
  process.
\<close>

record world =
  existsSync :: "string \<Rightarrow> bool"
  readJson :: "string \<Rightarrow> json option"
  spawn_error :: "string option"

section \<open>Sessions and the manager\<close>

type_synonym socketId = string
type_synonym sock = nat
type_synonym addr = nat
type_synonym pid = nat

record session =
  cwd :: string
  projectRoot :: string
  pty :: "pid option"
  initialOutputReceived :: bool

text \<open>What \<open>socket.emit\<close> sends: the event name is the constructor, the payload its argument.\<close>

datatype emitted =
    Output string
  | TerminalCwd string
  | TerminalStatus bool
  | TerminalPorts "nat list"

text \<open>
  The calls that leave the manager, in the order they are made.  \<open>PtySpawn\<close> has the shell,
  its arguments, \<open>cols\<close>, \<open>rows\<close> and \<open>cwd\<close>; \<open>SetTimeout\<close> the delay of the port scan that
  follows a spawn; \<open>Exec\<close> the command of a port scan; \<open>FsAccess\<close> the path whose
  readability \<open>cd\<close> asks for.
\<close>

datatype action =
    Emit sock emitted
  | MkdirSync string
  | FsAccess string
  | PtySpawn string "string list" nat nat string
  | PtyWrite pid string
  | PtyResize pid nat nat
  | PtyKill pid
  | SetTimeout nat
  | Exec string

text \<open>
  The callback that \<open>execute\<close> gives to \<open>fs.access\<close> keeps the session object, the
  socket, \<open>newPath\<close> and \<open>targetDir\<close> until the answer comes.
\<close>

record access_closure =
  ac_session :: addr
  ac_socket :: sock
  ac_newPath :: string
  ac_targetDir :: string

text \<open>
  \<open>sessions\<close> is \<open>this.sessions\<close>: it holds references, and a session object outlives its
  entry there, since the callbacks of \<open>execute\<close> keep it.  So the objects live in a \<open>heap\<close>,
  \<open>allocated\<close> of them so far.  \<open>handlers\<close> are the \<open>onData\<close> and \<open>onExit\<close> closures of
  the processes that have not exited, each with its session object and socket;
  \<open>spawned\<close> counts the processes.  The three lists are the callbacks that wait: of
  \<open>fs.access\<close>, of \<open>setTimeout\<close> and of \<open>exec\<close> (the last two keep the socket only, as
  \<open>scanPorts\<close> does not read its session).
\<close>

record manager =
  sessions :: "socketId \<rightharpoonup> addr"
  heap :: "addr \<Rightarrow> session"
  allocated :: nat
  handlers :: "pid \<rightharpoonup> addr \<times> sock"
  spawned :: nat
  pending_access :: "access_closure list"
  pending_timers :: "sock list"
  pending_execs :: "sock list"

definition new_manager :: manager where
  "new_manager =
     \<lparr>sessions = Map.empty,
      heap = (\<lambda>a. \<lparr>cwd = [], projectRoot = [], pty = None, initialOutputReceived = False\<rparr>),
      allocated = 0, handlers = Map.empty, spawned = 0,
      pending_access = [], pending_timers = [], pending_execs = []\<rparr>"

subsection \<open>\<open>filterOutput\<close>\<close>

text \<open>\<open>/Microsoft Windows \[Version [^\]]+\]/\<close>\<close>

definition windows_banner :: matcher where
  "windows_banner s =
     (let p = ''Microsoft Windows [Version '' in
      if prefix p s then map_option (\<lambda>k. length p + k) (delimited 1 (CHR '']'') (drop (length p) s))
      else None)"

text \<open>\<open>/\(c\) Microsoft Corporation\. All rights reserved\./\<close>\<close>

definition copyright_line :: matcher where
  "copyright_line s =
     (let p = ''(c) Microsoft Corporation. All rights reserved.'' in
      if prefix p s then Some (length p) else None)"

text \<open>\<open>/[A-Z]:\\[^>]+>/\<close>\<close>

definition is_upper :: "char \<Rightarrow> bool" where
  "is_upper c = (of_char (CHR ''A'') \<le> (of_char c :: nat) \<and> (of_char c :: nat) \<le> of_char (CHR ''Z''))"

definition path_prompt :: matcher where
  "path_prompt s =
     (case s of
        c # d # e # r \<Rightarrow>
          if is_upper c \<and> d = CHR '':'' \<and> e = CHR 0x5C
          then map_option (\<lambda>k. 3 + k) (delimited 1 (CHR ''>'') r)
          else None
      | _ \<Rightarrow> None)"

definition filterOutput :: "string \<Rightarrow> session \<Rightarrow> string \<times> session" where
  "filterOutput data session =
     (let (cleanedData, session) =
            (if \<not> initialOutputReceived session
             then (drop_leading white_space
                     (remove_all path_prompt
                        (strip_title
                           (remove_all copyright_line (remove_all windows_banner data)))),
                   session\<lparr>initialOutputReceived := True\<rparr>)
             else (data, session))
      in (strip_title cleanedData, session))"

subsection \<open>\<open>scanPorts\<close>\<close>

definition scan_command :: "host \<Rightarrow> string" where
  "scan_command h =
     (if win32 h then ''netstat -ano -p tcp | findstr LISTENING'' else ''ss -tlnp'')"

definition is_digit :: "char \<Rightarrow> bool" where
  "is_digit c = (of_char (CHR ''0'') \<le> (of_char c :: nat) \<and> (of_char c :: nat) \<le> of_char (CHR ''9''))"

text \<open>What \<open>.*\<close> can take: the text up to the first line terminator.\<close>

fun dot_run :: "string \<Rightarrow> string" where
  "dot_run [] = []"
| "dot_run (c # cs) =
     (if list_ex (\<lambda>t. prefix t (c # cs)) line_terminators then [] else c # dot_run cs)"

text \<open>
  \<open>line.match(/:(\d+)\s+.*LISTENING/)\<close>: the group of the leftmost match.  A match begins
  at a colon, takes all the digits that follow (a shorter run would be followed by a
  digit, not by white space), then all the white space (\<open>LISTENING\<close> does not begin with
  white space, so giving some back to \<open>.*\<close> finds nothing new), and needs \<open>LISTENING\<close>
  before the next line terminator.
\<close>

fun port_match :: "string \<Rightarrow> string option" where
  "port_match [] = None"
| "port_match (c # cs) =
     (if c = CHR '':'' then
        (let ds = takeWhile is_digit cs;
             rest = dropWhile is_digit cs;
             r = drop_leading white_space rest
         in if ds \<noteq> [] \<and> r \<noteq> rest \<and> contains ''LISTENING'' (dot_run r)
            then Some ds
            else port_match cs)
      else port_match cs)"

text \<open>
  \<open>parseInt\<close> of a string of decimal digits.  (JavaScript rounds to a double; that is
  exact up to \<open>2^53\<close>, far beyond any port number.)
\<close>

definition parseInt :: "string \<Rightarrow> nat" where
  "parseInt ds = foldl (\<lambda>n c. 10 * n + (of_char c - of_char (CHR ''0''))) 0 ds"

text \<open>\<open>ports.add(port)\<close> on a \<open>Set\<close>, which keeps the order of first insertion.\<close>

definition set_add :: "nat \<Rightarrow> nat list \<Rightarrow> nat list" where
  "set_add port ports = (if port \<in> set ports then ports else ports @ [port])"

definition scan_line :: "nat list \<Rightarrow> string \<Rightarrow> nat list" where
  "scan_line ports line =
     (case port_match line of
        None \<Rightarrow> ports
      | Some ds \<Rightarrow>
          (let port = parseInt ds in
           if port > 1024 \<and> port \<noteq> 3000 \<and> port \<noteq> 3001 then set_add port ports else ports))"

definition port_list :: "string \<Rightarrow> nat list" where
  "port_list stdout = foldl scan_line [] (split_on (CHR 0x0A) stdout)"

text \<open>
  \<open>scanPorts\<close> starts the command and returns; its callback runs when \<open>exec\<close> is done,
  with \<open>None\<close> for an error and \<open>Some stdout\<close> for the output.  The second component
  is what the promise resolves to.  The socket is there in every call of this file.
\<close>

definition scanPorts :: "host \<Rightarrow> sock \<Rightarrow> manager \<Rightarrow> action list \<times> manager" where
  "scanPorts h socket m =
     ([Exec (scan_command h)], m\<lparr>pending_execs := pending_execs m @ [socket]\<rparr>)"

definition scanPorts_callback :: "sock \<Rightarrow> string option \<Rightarrow> action list \<times> nat list" where
  "scanPorts_callback socket out =
     (case out of
        None \<Rightarrow> ([], [])
      | Some stdout \<Rightarrow>
          (let portList = port_list stdout in ([Emit socket (TerminalPorts portList)], portList)))"

subsection \<open>\<open>createSession\<close>, \<open>write\<close>, \<open>resize\<close>, \<open>kill\<close>\<close>

text \<open>
  \<open>userId\<close> and \<open>socket\<close> may be missing (\<open>None\<close>); \<open>userId || 'anonymous'\<close> also replaces
  the empty string.  \<open>fs.mkdirSync\<close> with \<open>recursive\<close> is taken to succeed.  Socket ids
  are the ids that socket.io generates, none of them a member of \<open>Object.prototype\<close>.
\<close>

definition createSession ::
  "host \<Rightarrow> world \<Rightarrow> socketId \<Rightarrow> sock option \<Rightarrow> string option \<Rightarrow> manager
     \<Rightarrow> action list \<times> addr \<times> manager" where
  "createSession h w socketId socket userId m =
     (case sessions m socketId of
        Some a \<Rightarrow> ([], a, m)
      | None \<Rightarrow>
          (let safeUserId = (case userId of
                               None \<Rightarrow> ''anonymous''
                             | Some u \<Rightarrow> if u = [] then ''anonymous'' else u);
               root = path_join h [tmpdir h, ''teachgrid-workspace'', safeUserId];
               a = allocated m
           in ((if existsSync w root then [] else [MkdirSync root])
               @ (case socket of Some s \<Rightarrow> [Emit s (TerminalCwd [])] | None \<Rightarrow> []),
               a,
               m\<lparr>sessions := (sessions m)(socketId \<mapsto> a),
                 heap := (heap m)(a := \<lparr>cwd = root, projectRoot = root, pty = None,
                                         initialOutputReceived = False\<rparr>),
                 allocated := Suc a\<rparr>)))"

text \<open>\<open>write\<close>.  An error of \<open>pty.write\<close> is caught and dropped; the call is made all the same.\<close>

definition write_stdin :: "socketId \<Rightarrow> string \<Rightarrow> manager \<Rightarrow> action list \<times> manager" where
  "write_stdin socketId data m =
     (case sessions m socketId of
        None \<Rightarrow> ([], m)
      | Some a \<Rightarrow>
          (case pty (heap m a) of
             None \<Rightarrow> ([], m)
           | Some p \<Rightarrow> ([PtyWrite p data], m)))"

definition resize :: "socketId \<Rightarrow> nat \<Rightarrow> nat \<Rightarrow> manager \<Rightarrow> action list \<times> manager" where
  "resize socketId cols rows m =
     (case sessions m socketId of
        None \<Rightarrow> ([], m)
      | Some a \<Rightarrow>
          (case pty (heap m a) of
             None \<Rightarrow> ([], m)
           | Some p \<Rightarrow> ([PtyResize p cols rows], m)))"

definition kill :: "socketId \<Rightarrow> manager \<Rightarrow> action list \<times> manager" where
  "kill socketId m =
     (case sessions m socketId of
        None \<Rightarrow> ([], m)
      | Some a \<Rightarrow>
          ((case pty (heap m a) of None \<Rightarrow> [] | Some p \<Rightarrow> [PtyKill p]),
           m\<lparr>sessions := (sessions m)(socketId := None)\<rparr>))"

subsection \<open>\<open>execute\<close>\<close>

definition aliases :: "(string \<times> string) list" where
  "aliases =
     [(''ls'', ''dir /b''), (''dir'', ''dir /b''), (''ll'', ''dir''), (''cat'', ''type''),
      (''rm'', ''del''), (''clear'', ''cls''), (''pwd'', ''echo %cd%'')]"

text \<open>
  \<open>aliases\<close> is an object literal, so \<open>aliases[name]\<close> also finds the members of
  \<open>Object.prototype\<close>, all of them truthy.  \<open>parts.join(' ')\<close> then writes the member as a
  string: the source text of a native function, or \<open>[object Object]\<close> for \<open>__proto__\<close>.
\<close>

definition native_function :: "string \<Rightarrow> string" where
  "native_function name = ''function '' @ name @ ''() { [native code] }''"

definition object_prototype :: "(string \<times> string) list" where
  "object_prototype =
     (''constructor'', native_function ''Object'')
     # (''__proto__'', ''[object Object]'')
     # map (\<lambda>name. (name, native_function name))
         [''__defineGetter__'', ''__defineSetter__'', ''hasOwnProperty'', ''__lookupGetter__'',
          ''__lookupSetter__'', ''isPrototypeOf'', ''propertyIsEnumerable'', ''toString'',
          ''valueOf'', ''toLocaleString'']"

definition resolve_alias :: "string \<Rightarrow> string" where
  "resolve_alias trimmedCmd =
     (let parts = split_on (CHR '' '') trimmedCmd in
      case map_of (aliases @ object_prototype) (hd parts) of
        Some v \<Rightarrow> join_with '' '' (v # tl parts)
      | None \<Rightarrow> trimmedCmd)"

definition redirect_notice :: string where
  "redirect_notice =
     [CHR 0xF0, CHR 0x9F, CHR 0x92, CHR 0xA1]
     @ '' Intelligence: No '' @ [CHR 0x27] @ ''start'' @ [CHR 0x27]
     @ '' script found. Redirecting to '' @ [CHR 0x27] @ ''npm run dev'' @ [CHR 0x27]
     @ ''...'' @ [CHR 0x0D, CHR 0x0A]"

text \<open>
  The interceptor of \<open>npm start\<close>.  Everything is inside \<open>try\<close>: a manifest that cannot
  be read or parsed, and the manifest \<open>null\<close>, whose \<open>scripts\<close> cannot be read, leave the
  command as it is.
\<close>

definition smart_interceptor ::
  "host \<Rightarrow> world \<Rightarrow> session \<Rightarrow> sock \<Rightarrow> string \<Rightarrow> action list \<times> string" where
  "smart_interceptor h w session socket trimmedCmd =
     (if trimmedCmd = ''npm start'' then
        (let pkgPath = path_join h [cwd session, ''package.json''] in
         if existsSync w pkgPath then
           (case readJson w pkgPath of
              None \<Rightarrow> ([], trimmedCmd)
            | Some JNull \<Rightarrow> ([], trimmedCmd)
            | Some pkg \<Rightarrow>
                (case get_member pkg ''scripts'' of
                   None \<Rightarrow> ([], trimmedCmd)
                 | Some scripts \<Rightarrow>
                     if truthy (Some scripts) \<and> \<not> truthy (get_member scripts ''start'')
                        \<and> truthy (get_member scripts ''dev'')
                     then ([Emit socket (Output redirect_notice)], ''npm run dev'')
                     else ([], trimmedCmd)))
         else ([], trimmedCmd))
      else ([], trimmedCmd))"

definition is_cd :: "string \<Rightarrow> bool" where
  "is_cd trimmedCmd = (prefix ''cd '' trimmedCmd \<or> trimmedCmd = ''cd'')"

text \<open>\<open>args[0] || os.homedir()\<close>, then the quotes.\<close>

definition cd_target :: "host \<Rightarrow> string \<Rightarrow> string" where
  "cd_target h trimmedCmd =
     (let args = tl (split_on (CHR '' '') trimmedCmd);
          targetDir = (case args of
                         [] \<Rightarrow> homedir h
                       | x # _ \<Rightarrow> if x = [] then homedir h else x)
      in if prefix [CHR 0x22] targetDir \<and> suffix [CHR 0x22] targetDir
         then butlast (tl targetDir)
         else targetDir)"

definition access_denied :: string where
  "access_denied =
     ''Error: Access denied (Sandbox Restriction). Cannot navigate outside project root.''
     @ [CHR 0x0D, CHR 0x0A]"

definition no_such_directory :: "string \<Rightarrow> string" where
  "no_such_directory targetDir =
     ''cd: no such file or directory: '' @ targetDir @ [CHR 0x0D, CHR 0x0A]"

definition ansi_clear :: string where
  "ansi_clear = [ESC] @ ''[2J'' @ [ESC] @ ''[0f''"

text \<open>
  The last part of \<open>execute\<close>: the process, its handlers and the timer of the port scan.
  The process gets the next process number.
\<close>

definition shell :: "host \<Rightarrow> string" where
  "shell h = (if win32 h then ''cmd.exe'' else ''bash'')"

definition shell_args :: "host \<Rightarrow> string \<Rightarrow> string list" where
  "shell_args h trimmedCmd = (if win32 h then [''/C'', trimmedCmd] else [''-c'', trimmedCmd])"

definition spawn_command ::
  "host \<Rightarrow> world \<Rightarrow> addr \<Rightarrow> sock \<Rightarrow> string \<Rightarrow> manager \<Rightarrow> action list \<times> manager" where
  "spawn_command h w a socket trimmedCmd m =
     (let attempt = PtySpawn (shell h) (shell_args h trimmedCmd) 80 30 (cwd (heap m a))
      in case spawn_error w of
           Some message \<Rightarrow>
             ([attempt,
               Emit socket (Output (''Failed to execute: '' @ message @ [CHR 0x0D, CHR 0x0A]))],
              m)
         | None \<Rightarrow>
             (let p = spawned m in
              ([attempt, Emit socket (TerminalStatus True), SetTimeout 2000],
               m\<lparr>heap := (heap m)(a := (heap m a)\<lparr>pty := Some p,
                                                     initialOutputReceived := False\<rparr>),
                 handlers := (handlers m)(p \<mapsto> (a, socket)),
                 spawned := Suc p,
                 pending_timers := pending_timers m @ [socket]\<rparr>)))"

text \<open>
  \<open>execute\<close> uses its socket without asking whether it is there, so it is there.  The
  answer of \<open>fs.access\<close> comes later, as \<open>access_callback\<close>.
\<close>

definition execute ::
  "host \<Rightarrow> world \<Rightarrow> socketId \<Rightarrow> string \<Rightarrow> sock \<Rightarrow> manager \<Rightarrow> action list \<times> manager" where
  "execute h w socketId command socket m =
     (let (created, a, m) = createSession h w socketId (Some socket) None m;
          session = heap m a;
          trimmedCmd = trim command
      in if trimmedCmd = [] then (created, m)
         else
           (let (noticed, trimmedCmd) =
                  smart_interceptor h w session socket (resolve_alias trimmedCmd)
            in if is_cd trimmedCmd then
                 (let targetDir = cd_target h trimmedCmd;
                      newPath = path_resolve h (cwd session) targetDir
                  in if \<not> prefix (projectRoot session) newPath
                     then (created @ noticed @ [Emit socket (Output access_denied)], m)
                     else (created @ noticed @ [FsAccess newPath],
                           m\<lparr>pending_access := pending_access m
                                @ [\<lparr>ac_session = a, ac_socket = socket,
                                    ac_newPath = newPath, ac_targetDir = targetDir\<rparr>]\<rparr>))
               else if trimmedCmd = ''cls'' \<or> trimmedCmd = ''clear''
               then (created @ noticed @ [Emit socket (Output ansi_clear)], m)
               else (let (acts, m) = spawn_command h w a socket trimmedCmd m
                     in (created @ noticed @ acts, m))))"

definition access_callback ::
  "host \<Rightarrow> access_closure \<Rightarrow> bool \<Rightarrow> manager \<Rightarrow> action list \<times> manager" where
  "access_callback h c err m =
     (let a = ac_session c; session = heap m a in
      if err
      then ([Emit (ac_socket c) (Output (no_such_directory (ac_targetDir c)))], m)
      else ([Emit (ac_socket c)
               (TerminalCwd (path_relative h (projectRoot session) (ac_newPath c)))],
            m\<lparr>heap := (heap m)(a := session\<lparr>cwd := ac_newPath c\<rparr>)\<rparr>))"

subsection \<open>\<open>handleInput\<close>\<close>

definition handleInput ::
  "host \<Rightarrow> world \<Rightarrow> socketId \<Rightarrow> string \<Rightarrow> sock \<Rightarrow> manager \<Rightarrow> action list \<times> manager" where
  "handleInput h w socketId data socket m =
     (let (created, a, m) = createSession h w socketId (Some socket) None m;
          (acts, m) = (if pty (heap m a) \<noteq> None
                       then write_stdin socketId data m
                       else execute h w socketId data socket m)
      in (created @ acts, m))"

subsection \<open>The handlers of a process\<close>

definition onData :: "pid \<Rightarrow> string \<Rightarrow> manager \<Rightarrow> action list \<times> manager" where
  "onData p data m =
     (case handlers m p of
        None \<Rightarrow> ([], m)
      | Some (a, socket) \<Rightarrow>
          (let (cleaned, session) = filterOutput data (heap m a) in
           ((if cleaned \<noteq> [] then [Emit socket (Output cleaned)] else []),
            m\<lparr>heap := (heap m)(a := session)\<rparr>)))"

definition onExit :: "host \<Rightarrow> pid \<Rightarrow> manager \<Rightarrow> action list \<times> manager" where
  "onExit h p m =
     (case handlers m p of
        None \<Rightarrow> ([], m)
      | Some (a, socket) \<Rightarrow>
          (let m = m\<lparr>heap := (heap m)(a := (heap m a)\<lparr>pty := None\<rparr>),
                     handlers := (handlers m)(p := None)\<rparr>;
               (scan, m) = scanPorts h socket m
           in (Emit socket (TerminalStatus False) # scan, m)))"

section \<open>The server as a transition system\<close>

text \<open>
  Node runs one handler at a time.  An event is one such run: a call of a method of the
  manager by the socket layer (with what the outside answers during the call), or one of
  the callbacks that the manager has left behind, chosen by its place in the list where it
  waits; \<open>True\<close> in \<open>AccessDone\<close> says that \<open>fs.access\<close> reports an error.  Callbacks
  may come in any order.  The socket layer dispatches input through \<open>handleInput\<close>.
\<close>

datatype event =
    HandleInput world socketId string sock
  | CreateSession world socketId "sock option" "string option"
  | Resize socketId nat nat
  | Kill socketId
  | AccessDone nat bool
  | TimerFired nat
  | ExecDone nat "string option"
  | PtyData pid string
  | PtyExit pid

definition remove_nth :: "nat \<Rightarrow> 'a list \<Rightarrow> 'a list" where
  "remove_nth n xs = take n xs @ drop (Suc n) xs"

fun step :: "host \<Rightarrow> event \<Rightarrow> manager \<Rightarrow> action list \<times> manager" where
  "step h (HandleInput w socketId data socket) m = handleInput h w socketId data socket m"
| "step h (CreateSession w socketId socket userId) m =
     (let (acts, a, m) = createSession h w socketId socket userId m in (acts, m))"
| "step h (Resize socketId cols rows) m = resize socketId cols rows m"
| "step h (Kill socketId) m = kill socketId m"
| "step h (AccessDone n err) m =
     (if n < length (pending_access m)
      then access_callback h (pending_access m ! n) err
             (m\<lparr>pending_access := remove_nth n (pending_access m)\<rparr>)
      else ([], m))"
| "step h (TimerFired n) m =
     (if n < length (pending_timers m)
      then scanPorts h (pending_timers m ! n)
             (m\<lparr>pending_timers := remove_nth n (pending_timers m)\<rparr>)
      else ([], m))"
| "step h (ExecDone n out) m =
     (if n < length (pending_execs m)
      then (fst (scanPorts_callback (pending_execs m ! n) out),
            m\<lparr>pending_execs := remove_nth n (pending_execs m)\<rparr>)
      else ([], m))"
| "step h (PtyData p data) m = onData p data m"
| "step h (PtyExit p) m = onExit h p m"

fun run :: "host \<Rightarrow> event list \<Rightarrow> manager \<Rightarrow> action list \<times> manager" where
  "run h [] m = ([], m)"
| "run h (e # es) m =
     (let (acts, m) = step h e m; (more, m) = run h es m in (acts @ more, m))"

text \<open>The manager after a history, from \<open>new TerminalManager()\<close>.\<close>

definition after :: "host \<Rightarrow> event list \<Rightarrow> manager" where
  "after h es = snd (run h es new_manager)"

text \<open>The processes of a session object that have been spawned and have not exited.\<close>

definition running :: "manager \<Rightarrow> addr \<Rightarrow> pid list" where
  "running m a =
     filter (\<lambda>p. case handlers m p of Some (b, s) \<Rightarrow> b = a | None \<Rightarrow> False) [0..<spawned m]"

section \<open>\<open>path.posix\<close>\<close>

text \<open>
  Node's \<open>path\<close> on a POSIX system, after its documentation and \<open>lib/path.js\<close>.  Paths
  are taken apart at \<open>/\<close>.  \<open>normalizeString\<close> drops empty segments and \<open>.\<close>, and lets
  \<open>..\<close> take back the segment before it; at the top, \<open>..\<close> stays if the path is
  relative and is dropped if it is absolute.
\<close>

fun normalize_segments :: "bool \<Rightarrow> string list \<Rightarrow> string list \<Rightarrow> string list" where
  "normalize_segments allow out [] = rev out"
| "normalize_segments allow out (seg # segs) =
     (if seg = [] \<or> seg = ''.'' then normalize_segments allow out segs
      else if seg = ''..'' then
        (case out of
           seg0 # below \<Rightarrow>
             if seg0 \<noteq> ''..'' then normalize_segments allow below segs
             else normalize_segments allow (if allow then seg # out else out) segs
         | [] \<Rightarrow> normalize_segments allow (if allow then [seg] else []) segs)
      else normalize_segments allow (seg # out) segs)"

definition normalizeString :: "string \<Rightarrow> bool \<Rightarrow> string" where
  "normalizeString path allowAboveRoot =
     join_with ''/'' (normalize_segments allowAboveRoot [] (split_on (CHR ''/'') path))"

text \<open>
  \<open>path.resolve\<close> goes through its arguments from the right, then the working directory
  of the process, until it has an absolute path; empty arguments are skipped.
\<close>

fun resolve_from_right :: "string list \<Rightarrow> string" where
  "resolve_from_right [] = []"
| "resolve_from_right (p # ps) =
     (if p = [] then resolve_from_right ps
      else if hd p = CHR ''/'' then p @ ''/''
      else resolve_from_right ps @ p @ ''/'')"

definition posix_resolve :: "string \<Rightarrow> string list \<Rightarrow> string" where
  "posix_resolve process_cwd paths =
     (let resolvedPath = resolve_from_right (rev paths @ [process_cwd]);
          resolvedAbsolute = prefix ''/'' resolvedPath;
          normalized = normalizeString resolvedPath (\<not> resolvedAbsolute)
      in if resolvedAbsolute then ''/'' @ normalized
         else if normalized \<noteq> [] then normalized else ''.'')"

definition posix_normalize :: "string \<Rightarrow> string" where
  "posix_normalize path =
     (if path = [] then ''.''
      else
        (let isAbsolute = prefix ''/'' path;
             trailingSeparator = suffix ''/'' path;
             normalized = normalizeString path (\<not> isAbsolute)
         in if normalized = []
            then (if isAbsolute then ''/'' else if trailingSeparator then ''./'' else ''.'')
            else (if isAbsolute then ''/'' else [])
                 @ normalized @ (if trailingSeparator then ''/'' else [])))"

definition posix_join :: "string list \<Rightarrow> string" where
  "posix_join paths =
     (let joined = join_with ''/'' (filter (\<lambda>p. p \<noteq> []) paths)
      in if joined = [] then ''.'' else posix_normalize joined)"

definition segments :: "string \<Rightarrow> string list" where
  "segments path = filter (\<lambda>seg. seg \<noteq> []) (split_on (CHR ''/'') path)"

text \<open>
  \<open>path.relative\<close> resolves both paths, leaves out the segments they begin with in
  common, climbs out of what is left of \<open>from\<close> and descends into what is left of \<open>to\<close>.
\<close>

definition posix_relative :: "string \<Rightarrow> string \<Rightarrow> string \<Rightarrow> string" where
  "posix_relative process_cwd from to =
     (if from = to then []
      else
        (let from = posix_resolve process_cwd [from];
             to = posix_resolve process_cwd [to]
         in if from = to then []
            else
              (let fs = segments from;
                   ts = segments to;
                   n = length (longest_common_prefix fs ts)
               in join_with ''/'' (replicate (length fs - n) ''..'' @ drop n ts))))"

definition posix_host :: "string \<Rightarrow> string \<Rightarrow> string \<Rightarrow> host" where
  "posix_host process_cwd tmp home =
     \<lparr>win32 = False, tmpdir = tmp, homedir = home,
      path_join = posix_join,
      path_resolve = (\<lambda>a b. posix_resolve process_cwd [a, b]),
      path_relative = posix_relative process_cwd\<rparr>"

section \<open>Consistency, and inputs to try the program on\<close>

text \<open>
  What holds of the manager at every moment (\<open>consistent_after\<close> below): the registry
  points to objects that exist; every working directory begins with its sandbox root, and
  so does every path that a waiting \<open>fs.access\<close> callback will store; the handlers that
  wait belong to a process that their session has attached, and every attached process
  has its handlers.
\<close>

definition consistent :: "manager \<Rightarrow> bool" where
  "consistent m \<longleftrightarrow>
     (\<forall>socketId a. sessions m socketId = Some a \<longrightarrow> a < allocated m)
     \<and> (\<forall>a<allocated m. prefix (projectRoot (heap m a)) (cwd (heap m a)))
     \<and> (\<forall>c\<in>set (pending_access m).
           ac_session c < allocated m
           \<and> prefix (projectRoot (heap m (ac_session c))) (ac_newPath c))
     \<and> (\<forall>p a s. handlers m p = Some (a, s) \<longrightarrow>
           p < spawned m \<and> a < allocated m \<and> pty (heap m a) = Some p)
     \<and> (\<forall>a p. pty (heap m a) = Some p \<longrightarrow> (\<exists>s. handlers m p = Some (a, s)))"

text \<open>
  A path is equal to or nested under a directory when the segments of the directory are
  the first segments of the path (both normalised and absolute).
\<close>

definition nested_under :: "string \<Rightarrow> string \<Rightarrow> bool" where
  "nested_under dir path \<longleftrightarrow> prefix (segments dir) (segments path)"

text \<open>
  A POSIX host whose server runs in \<open>/srv/app\<close>, and three states of the world: one where
  no file exists, one where every file exists and every manifest parses to \<open>pkg\<close>, and
  one where the manifest exists and cannot be parsed.
\<close>

definition sample_host :: host where
  "sample_host = posix_host ''/srv/app'' ''/tmp'' ''/home/dev''"

definition empty_world :: world where
  "empty_world = \<lparr>existsSync = (\<lambda>p. False), readJson = (\<lambda>p. None), spawn_error = None\<rparr>"

definition manifest_world :: "json \<Rightarrow> world" where
  "manifest_world pkg =
     \<lparr>existsSync = (\<lambda>p. True), readJson = (\<lambda>p. Some pkg), spawn_error = None\<rparr>"

definition malformed_world :: world where
  "malformed_world = \<lparr>existsSync = (\<lambda>p. True), readJson = (\<lambda>p. None), spawn_error = None\<rparr>"

text \<open>
  What \<open>netstat -ano -p tcp | findstr LISTENING\<close> prints on Windows and what \<open>ss -tlnp\<close>
  prints on Linux, each with listeners on the ports 80, 3000, 3001 and 5173.
\<close>

definition netstat_sample :: string where
  "netstat_sample =
     ''  TCP  0.0.0.0:80  0.0.0.0:0  LISTENING  4'' @ [CHR 0x0D, CHR 0x0A]
     @ ''  TCP  0.0.0.0:3000  0.0.0.0:0  LISTENING  812'' @ [CHR 0x0D, CHR 0x0A]
     @ ''  TCP  0.0.0.0:3001  0.0.0.0:0  LISTENING  812'' @ [CHR 0x0D, CHR 0x0A]
     @ ''  TCP  0.0.0.0:5173  0.0.0.0:0  LISTENING  977'' @ [CHR 0x0D, CHR 0x0A]
     @ ''  TCP  127.0.0.1:5173  0.0.0.0:0  LISTENING  977'' @ [CHR 0x0D, CHR 0x0A]"

definition ss_sample :: string where
  "ss_sample =
     ''State  Recv-Q Send-Q Local Address:Port Peer Address:Port Process'' @ [CHR 0x0A]
     @ ''LISTEN 0      511          0.0.0.0:80        0.0.0.0:*'' @ [CHR 0x0A]
     @ ''LISTEN 0      511          0.0.0.0:3000      0.0.0.0:*'' @ [CHR 0x0A]
     @ ''LISTEN 0      511          0.0.0.0:3001      0.0.0.0:*'' @ [CHR 0x0A]
     @ ''LISTEN 0      511          0.0.0.0:5173      0.0.0.0:*'' @ [CHR 0x0A]"

section \<open>What every history preserves\<close>

lemma createSession_known:
  "sessions m socketId = Some a \<Longrightarrow> createSession h w socketId socket userId m = ([], a, m)"
  by (simp add: createSession_def)

lemma createSession_cases:
  assumes "createSession h w socketId socket userId m = (acts, a, m')"
  obtains (known) "sessions m socketId = Some a" "m' = m" "acts = []"
  | (fresh) root where "sessions m socketId = None" "a = allocated m"
      "m' = m\<lparr>sessions := (sessions m)(socketId \<mapsto> a),
              heap := (heap m)(a := \<lparr>cwd = root, projectRoot = root, pty = None,
                                      initialOutputReceived = False\<rparr>),
              allocated := Suc a\<rparr>"
  using assms by (auto simp: createSession_def Let_def split: option.splits)

lemma createSession_registers:
  "createSession h w socketId socket userId m = (acts, a, m') \<Longrightarrow> sessions m' socketId = Some a"
  by (erule createSession_cases) auto

lemma execute_known:
  assumes "sessions m socketId = Some a"
  shows "execute h w socketId command socket m =
     (if trim command = [] then ([], m)
      else
        (let (noticed, trimmedCmd) =
               smart_interceptor h w (heap m a) socket (resolve_alias (trim command))
         in if is_cd trimmedCmd then
              (let targetDir = cd_target h trimmedCmd;
                   newPath = path_resolve h (cwd (heap m a)) targetDir
               in if \<not> prefix (projectRoot (heap m a)) newPath
                  then (noticed @ [Emit socket (Output access_denied)], m)
                  else (noticed @ [FsAccess newPath],
                        m\<lparr>pending_access := pending_access m
                             @ [\<lparr>ac_session = a, ac_socket = socket,
                                 ac_newPath = newPath, ac_targetDir = targetDir\<rparr>]\<rparr>))
            else if trimmedCmd = ''cls'' \<or> trimmedCmd = ''clear''
            then (noticed @ [Emit socket (Output ansi_clear)], m)
            else (let (acts, m) = spawn_command h w a socket trimmedCmd m
                  in (noticed @ acts, m))))"
  using assms by (simp add: execute_def createSession_known Let_def split: prod.splits)


lemma spawn_command_state:
  assumes "spawn_command h w a socket cmd m = (acts, m')"
  shows "m' = m \<or> m' = m\<lparr>heap := (heap m)(a := (heap m a)\<lparr>pty := Some (spawned m),
                                                     initialOutputReceived := False\<rparr>),
                 handlers := (handlers m)(spawned m \<mapsto> (a, socket)),
                 spawned := Suc (spawned m),
                 pending_timers := pending_timers m @ [socket]\<rparr>"
  using assms by (auto simp: spawn_command_def Let_def split: option.splits)

lemma execute_state:
  assumes known: "sessions m socketId = Some a"
    and ex: "execute h w socketId command socket m = (acts, m')"
  obtains (same) "m' = m"
  | (access) c where "ac_session c = a" "prefix (projectRoot (heap m a)) (ac_newPath c)"
      "m' = m\<lparr>pending_access := pending_access m @ [c]\<rparr>"
  | (spawn) "m' = m\<lparr>heap := (heap m)(a := (heap m a)\<lparr>pty := Some (spawned m),
                                                     initialOutputReceived := False\<rparr>),
                 handlers := (handlers m)(spawned m \<mapsto> (a, socket)),
                 spawned := Suc (spawned m),
                 pending_timers := pending_timers m @ [socket]\<rparr>"
proof (cases "trim command = []")
  case True
  with ex known have "m' = m" by (simp add: execute_known)
  then show ?thesis by (rule same)
next
  case False
  obtain noticed cmd where si:
    "smart_interceptor h w (heap m a) socket (resolve_alias (trim command)) = (noticed, cmd)"
    by (cases "smart_interceptor h w (heap m a) socket (resolve_alias (trim command))")
  show ?thesis
  proof (cases "is_cd cmd")
    case True
    show ?thesis
    proof (cases "prefix (projectRoot (heap m a)) (path_resolve h (cwd (heap m a)) (cd_target h cmd))")
      case True
      with ex known False si \<open>is_cd cmd\<close> have
        "m' = m\<lparr>pending_access := pending_access m
                @ [\<lparr>ac_session = a, ac_socket = socket,
                    ac_newPath = path_resolve h (cwd (heap m a)) (cd_target h cmd),
                    ac_targetDir = cd_target h cmd\<rparr>]\<rparr>"
        by (simp add: execute_known Let_def)
      with True show ?thesis by (intro access [where c = "\<lparr>ac_session = a, ac_socket = socket,
                    ac_newPath = path_resolve h (cwd (heap m a)) (cd_target h cmd),
                    ac_targetDir = cd_target h cmd\<rparr>"]) simp_all
    next
      case False
      with ex known \<open>trim command \<noteq> []\<close> si \<open>is_cd cmd\<close> have "m' = m"
        by (simp add: execute_known Let_def)
      then show ?thesis by (rule same)
    qed
  next
    case notcd: False
    show ?thesis
    proof (cases "cmd = ''cls'' \<or> cmd = ''clear''")
      case True
      with ex known False si notcd have "m' = m"
        by (auto simp add: execute_known Let_def)
      then show ?thesis by (rule same)
    next
      case False
      obtain acts1 m1 where sp: "spawn_command h w a socket cmd m = (acts1, m1)"
        by (cases "spawn_command h w a socket cmd m")
      with ex known \<open>trim command \<noteq> []\<close> si notcd False have "m' = m1"
        by (simp add: execute_known Let_def)
      with spawn_command_state [OF sp] show ?thesis
        using same spawn by blast
    qed
  qed
qed

lemma consistentI:
  assumes "\<And>socketId a. sessions m socketId = Some a \<Longrightarrow> a < allocated m"
    and "\<And>a. a < allocated m \<Longrightarrow> prefix (projectRoot (heap m a)) (cwd (heap m a))"
    and "\<And>c. c \<in> set (pending_access m) \<Longrightarrow>
           ac_session c < allocated m
           \<and> prefix (projectRoot (heap m (ac_session c))) (ac_newPath c)"
    and "\<And>p a s. handlers m p = Some (a, s) \<Longrightarrow>
           p < spawned m \<and> a < allocated m \<and> pty (heap m a) = Some p"
    and "\<And>a p. pty (heap m a) = Some p \<Longrightarrow> \<exists>s. handlers m p = Some (a, s)"
  shows "consistent m"
  unfolding consistent_def using assms by blast

lemma consistent_registry:
  "consistent m \<Longrightarrow> sessions m socketId = Some a \<Longrightarrow> a < allocated m"
  unfolding consistent_def by blast

lemma consistent_sandbox:
  "consistent m \<Longrightarrow> a < allocated m \<Longrightarrow> prefix (projectRoot (heap m a)) (cwd (heap m a))"
  unfolding consistent_def by blast

lemma consistent_access:
  "consistent m \<Longrightarrow> c \<in> set (pending_access m) \<Longrightarrow>
     ac_session c < allocated m \<and> prefix (projectRoot (heap m (ac_session c))) (ac_newPath c)"
  unfolding consistent_def by blast

lemma consistent_handlers:
  "consistent m \<Longrightarrow> handlers m p = Some (a, s) \<Longrightarrow>
     p < spawned m \<and> a < allocated m \<and> pty (heap m a) = Some p"
  unfolding consistent_def by blast

lemma consistent_attached:
  "consistent m \<Longrightarrow> pty (heap m a) = Some p \<Longrightarrow> \<exists>s. handlers m p = Some (a, s)"
  unfolding consistent_def by blast

lemma consistent_new: "consistent new_manager"
  by (simp add: consistent_def new_manager_def)

lemma consistent_createSession:
  assumes c: "consistent m" and cs: "createSession h w socketId socket userId m = (acts, a, m')"
  shows "consistent m'"
  using cs
proof (cases rule: createSession_cases)
  case known
  with c show ?thesis by simp
next
  case (fresh root)
  show ?thesis
  proof (rule consistentI)
    fix sid b assume "sessions m' sid = Some b"
    with fresh c show "b < allocated m'"
      by (auto simp: less_Suc_eq dest: consistent_registry split: if_splits)
  next
    fix b assume "b < allocated m'"
    with fresh c show "prefix (projectRoot (heap m' b)) (cwd (heap m' b))"
      by (auto simp: less_Suc_eq dest: consistent_sandbox)
  next
    fix cl assume "cl \<in> set (pending_access m')"
    with fresh have "cl \<in> set (pending_access m)" by simp
    with c have "ac_session cl < allocated m
           \<and> prefix (projectRoot (heap m (ac_session cl))) (ac_newPath cl)"
      by (rule consistent_access)
    with fresh show "ac_session cl < allocated m'
           \<and> prefix (projectRoot (heap m' (ac_session cl))) (ac_newPath cl)"
      by auto
  next
    fix p b s assume "handlers m' p = Some (b, s)"
    with fresh have "handlers m p = Some (b, s)" by simp
    with c have "p < spawned m \<and> b < allocated m \<and> pty (heap m b) = Some p"
      by (rule consistent_handlers)
    with fresh show "p < spawned m' \<and> b < allocated m' \<and> pty (heap m' b) = Some p"
      by auto
  next
    fix b p assume "pty (heap m' b) = Some p"
    with fresh have "pty (heap m b) = Some p" "b \<noteq> a"
      by (auto split: if_splits)
    with c obtain s where "handlers m p = Some (b, s)"
      using consistent_attached by blast
    with fresh show "\<exists>s. handlers m' p = Some (b, s)" by simp
  qed
qed

lemma consistent_pending:
  assumes c: "consistent m" and a: "a < allocated m"
    and p: "prefix (projectRoot (heap m a)) (ac_newPath cl)" "ac_session cl = a"
  shows "consistent (m\<lparr>pending_access := pending_access m @ [cl]\<rparr>)"
proof (rule consistentI)
  fix c' assume "c' \<in> set (pending_access (m\<lparr>pending_access := pending_access m @ [cl]\<rparr>))"
  then have "c' \<in> set (pending_access m) \<or> c' = cl" by auto
  with c a p show "ac_session c' < allocated (m\<lparr>pending_access := pending_access m @ [cl]\<rparr>)
      \<and> prefix (projectRoot (heap (m\<lparr>pending_access := pending_access m @ [cl]\<rparr>) (ac_session c')))
          (ac_newPath c')"
    by (auto dest: consistent_access)
qed (use c in \<open>auto dest: consistent_registry consistent_sandbox consistent_handlers
       consistent_attached\<close>)

lemma consistent_spawn:
  fixes socket :: sock
  assumes c: "consistent m" and a: "a < allocated m" and idle: "pty (heap m a) = None"
  defines "m' \<equiv> m\<lparr>heap := (heap m)(a := (heap m a)\<lparr>pty := Some (spawned m),
                                                     initialOutputReceived := False\<rparr>),
                 handlers := (handlers m)(spawned m \<mapsto> (a, socket)),
                 spawned := Suc (spawned m),
                 pending_timers := pending_timers m @ [socket]\<rparr>"
  shows "consistent m'"
proof (rule consistentI)
  fix sid b assume "sessions m' sid = Some b"
  with c show "b < allocated m'"
    by (auto simp: m'_def dest: consistent_registry)
next
  fix b assume "b < allocated m'"
  with c show "prefix (projectRoot (heap m' b)) (cwd (heap m' b))"
    by (auto simp: m'_def dest: consistent_sandbox)
next
  fix cl assume "cl \<in> set (pending_access m')"
  then have "cl \<in> set (pending_access m)" by (simp add: m'_def)
  with c have "ac_session cl < allocated m
         \<and> prefix (projectRoot (heap m (ac_session cl))) (ac_newPath cl)"
    by (rule consistent_access)
  then show "ac_session cl < allocated m'
         \<and> prefix (projectRoot (heap m' (ac_session cl))) (ac_newPath cl)"
    by (auto simp: m'_def)
next
  fix p b s assume h: "handlers m' p = Some (b, s)"
  show "p < spawned m' \<and> b < allocated m' \<and> pty (heap m' b) = Some p"
  proof (cases "p = spawned m")
    case True
    with h a show ?thesis by (auto simp: m'_def)
  next
    case False
    with h have "handlers m p = Some (b, s)" by (simp add: m'_def)
    with c have old: "p < spawned m \<and> b < allocated m \<and> pty (heap m b) = Some p"
      by (rule consistent_handlers)
    with idle have "b \<noteq> a" by auto
    with old show ?thesis by (auto simp: m'_def)
  qed
next
  fix b p assume att: "pty (heap m' b) = Some p"
  show "\<exists>s. handlers m' p = Some (b, s)"
  proof (cases "b = a")
    case True
    with att show ?thesis by (auto simp: m'_def)
  next
    case False
    with att have "pty (heap m b) = Some p" by (simp add: m'_def)
    with c obtain s where s: "handlers m p = Some (b, s)"
      using consistent_attached by blast
    with c have "p < spawned m" using consistent_handlers by blast
    with s show ?thesis by (auto simp: m'_def)
  qed
qed

lemma consistent_execute:
  assumes c: "consistent m" and known: "sessions m socketId = Some a"
    and idle: "pty (heap m a) = None"
    and ex: "execute h w socketId command socket m = (acts, m')"
  shows "consistent m'"
proof -
  from c known have a: "a < allocated m" by (rule consistent_registry)
  from known ex show ?thesis
  proof (cases rule: execute_state)
    case same
    with c show ?thesis by simp
  next
    case (access cl)
    with consistent_pending [OF c a access(2,1)] show ?thesis by simp
  next
    case spawn
    with consistent_spawn [OF c a idle] show ?thesis by simp
  qed
qed

lemma write_stdin_state: "snd (write_stdin socketId data m) = m"
  by (simp add: write_stdin_def split: option.splits)

lemma resize_state: "snd (resize socketId cols rows m) = m"
  by (simp add: resize_def split: option.splits)

lemma consistent_handleInput:
  assumes c: "consistent m" and hi: "handleInput h w socketId data socket m = (acts, m')"
  shows "consistent m'"
proof -
  obtain created a m0 where cs: "createSession h w socketId (Some socket) None m = (created, a, m0)"
    by (cases "createSession h w socketId (Some socket) None m")
  have c0: "consistent m0" using c cs by (rule consistent_createSession)
  have known: "sessions m0 socketId = Some a" using cs by (rule createSession_registers)
  show ?thesis
  proof (cases "pty (heap m0 a)")
    case None
    obtain acts1 m1 where ex: "execute h w socketId data socket m0 = (acts1, m1)"
      by (cases "execute h w socketId data socket m0")
    with hi cs None have "m' = m1" by (simp add: handleInput_def)
    with consistent_execute [OF c0 known None ex] show ?thesis by simp
  next
    case (Some p)
    with hi cs have "m' = snd (write_stdin socketId data m0)"
      by (auto simp: handleInput_def split: prod.splits)
    with c0 show ?thesis by (simp add: write_stdin_state)
  qed
qed

lemma consistent_frame:
  assumes c: "consistent m"
    and "sessions m' = sessions m \<or> (\<exists>k. sessions m' = (sessions m)(k := None))"
    and "heap m' = heap m" "allocated m' = allocated m" "handlers m' = handlers m"
    and "spawned m' = spawned m" "set (pending_access m') \<subseteq> set (pending_access m)"
  shows "consistent m'"
proof (rule consistentI)
  fix sid b assume "sessions m' sid = Some b"
  with assms(2) have "sessions m sid = Some b"
    by (auto split: if_splits)
  with c assms(4) show "b < allocated m'"
    by (auto dest: consistent_registry)
next
  fix cl assume "cl \<in> set (pending_access m')"
  with assms(7) have "cl \<in> set (pending_access m)" by blast
  with c have "ac_session cl < allocated m
         \<and> prefix (projectRoot (heap m (ac_session cl))) (ac_newPath cl)"
    by (rule consistent_access)
  with assms(3,4) show "ac_session cl < allocated m'
         \<and> prefix (projectRoot (heap m' (ac_session cl))) (ac_newPath cl)"
    by simp
qed (use c assms(3-6) in \<open>auto dest: consistent_sandbox consistent_handlers consistent_attached\<close>)

lemma set_remove_nth: "set (remove_nth n xs) \<subseteq> set xs"
  unfolding remove_nth_def by (auto dest: in_set_takeD in_set_dropD)

lemma consistent_kill: "consistent m \<Longrightarrow> consistent (snd (kill socketId m))"
  by (erule consistent_frame) (auto simp: kill_def split: option.splits)

lemma consistent_scanPorts: "consistent m \<Longrightarrow> consistent (snd (scanPorts h socket m))"
  by (erule consistent_frame) (auto simp: scanPorts_def)

lemma filterOutput_session:
  "snd (filterOutput data session) = session
   \<or> snd (filterOutput data session) = session\<lparr>initialOutputReceived := True\<rparr>"
  by (simp add: filterOutput_def Let_def)

lemma consistent_heap_flag:
  assumes c: "consistent m"
    and s: "cwd s = cwd (heap m a)" "projectRoot s = projectRoot (heap m a)" "pty s = pty (heap m a)"
  shows "consistent (m\<lparr>heap := (heap m)(a := s)\<rparr>)"
proof (rule consistentI)
  fix b assume "b < allocated (m\<lparr>heap := (heap m)(a := s)\<rparr>)"
  with c s show "prefix (projectRoot (heap (m\<lparr>heap := (heap m)(a := s)\<rparr>) b))
      (cwd (heap (m\<lparr>heap := (heap m)(a := s)\<rparr>) b))"
    by (auto dest: consistent_sandbox)
next
  fix cl assume "cl \<in> set (pending_access (m\<lparr>heap := (heap m)(a := s)\<rparr>))"
  then have "cl \<in> set (pending_access m)" by simp
  with c have "ac_session cl < allocated m
         \<and> prefix (projectRoot (heap m (ac_session cl))) (ac_newPath cl)"
    by (rule consistent_access)
  with s show "ac_session cl < allocated (m\<lparr>heap := (heap m)(a := s)\<rparr>)
         \<and> prefix (projectRoot (heap (m\<lparr>heap := (heap m)(a := s)\<rparr>) (ac_session cl)))
             (ac_newPath cl)"
    by auto
next
  fix p b k assume "handlers (m\<lparr>heap := (heap m)(a := s)\<rparr>) p = Some (b, k)"
  then have "handlers m p = Some (b, k)" by simp
  with c have "p < spawned m \<and> b < allocated m \<and> pty (heap m b) = Some p"
    by (rule consistent_handlers)
  with s show "p < spawned (m\<lparr>heap := (heap m)(a := s)\<rparr>)
      \<and> b < allocated (m\<lparr>heap := (heap m)(a := s)\<rparr>)
      \<and> pty (heap (m\<lparr>heap := (heap m)(a := s)\<rparr>) b) = Some p"
    by auto
next
  fix b p assume "pty (heap (m\<lparr>heap := (heap m)(a := s)\<rparr>) b) = Some p"
  with s have "pty (heap m b) = Some p" by (auto split: if_splits)
  with c show "\<exists>k. handlers (m\<lparr>heap := (heap m)(a := s)\<rparr>) p = Some (b, k)"
    by (auto dest: consistent_attached)
qed (use c in \<open>auto dest: consistent_registry\<close>)

lemma consistent_onData: "consistent m \<Longrightarrow> consistent (snd (onData p data m))"
proof (cases "handlers m p")
  case None
  assume "consistent m"
  with None show ?thesis by (simp add: onData_def)
next
  case (Some as)
  assume c: "consistent m"
  obtain a socket where as: "as = (a, socket)" by (cases as)
  have "consistent (m\<lparr>heap := (heap m)(a := snd (filterOutput data (heap m a)))\<rparr>)"
    using filterOutput_session [of data "heap m a"]
    by (intro consistent_heap_flag [OF c]) auto
  with Some as show ?thesis
    by (auto simp: onData_def split: prod.splits)
qed

lemma consistent_onExit: "consistent m \<Longrightarrow> consistent (snd (onExit h p m))"
proof (cases "handlers m p")
  case None
  assume "consistent m"
  with None show ?thesis by (simp add: onExit_def)
next
  case (Some as)
  assume c: "consistent m"
  obtain a socket where as: "as = (a, socket)" by (cases as)
  define m1 where "m1 = m\<lparr>heap := (heap m)(a := (heap m a)\<lparr>pty := None\<rparr>),
                           handlers := (handlers m)(p := None)\<rparr>"
  from c Some as have own: "p < spawned m \<and> a < allocated m \<and> pty (heap m a) = Some p"
    by (auto dest: consistent_handlers)
  have "consistent m1"
  proof (rule consistentI)
    fix sid b assume "sessions m1 sid = Some b"
    with c show "b < allocated m1"
      by (auto simp: m1_def dest: consistent_registry)
  next
    fix b assume "b < allocated m1"
    with c show "prefix (projectRoot (heap m1 b)) (cwd (heap m1 b))"
      by (auto simp: m1_def dest: consistent_sandbox)
  next
    fix cl assume "cl \<in> set (pending_access m1)"
    then have "cl \<in> set (pending_access m)" by (simp add: m1_def)
    with c have "ac_session cl < allocated m
           \<and> prefix (projectRoot (heap m (ac_session cl))) (ac_newPath cl)"
      by (rule consistent_access)
    then show "ac_session cl < allocated m1
           \<and> prefix (projectRoot (heap m1 (ac_session cl))) (ac_newPath cl)"
      by (auto simp: m1_def)
  next
    fix q b s assume "handlers m1 q = Some (b, s)"
    then have q: "q \<noteq> p" "handlers m q = Some (b, s)"
      by (auto simp: m1_def split: if_splits)
    with c have old: "q < spawned m \<and> b < allocated m \<and> pty (heap m b) = Some q"
      using consistent_handlers by blast
    with own q have "b \<noteq> a" by auto
    with old show "q < spawned m1 \<and> b < allocated m1 \<and> pty (heap m1 b) = Some q"
      by (auto simp: m1_def)
  next
    fix b q assume "pty (heap m1 b) = Some q"
    then have b: "b \<noteq> a" "pty (heap m b) = Some q"
      by (auto simp: m1_def split: if_splits)
    with c obtain s where s: "handlers m q = Some (b, s)"
      using consistent_attached by blast
    with Some as b have "q \<noteq> p" by auto
    with s show "\<exists>s. handlers m1 q = Some (b, s)"
      by (auto simp: m1_def)
  qed
  then have "consistent (snd (scanPorts h socket m1))"
    by (rule consistent_scanPorts)
  with Some as show ?thesis
    by (auto simp: onExit_def m1_def Let_def split: prod.splits)
qed

lemma consistent_access_callback:
  assumes c: "consistent m" and cl: "cl \<in> set (pending_access m)"
  shows "consistent (snd (access_callback h cl err
           (m\<lparr>pending_access := remove_nth n (pending_access m)\<rparr>)))"
proof -
  define m0 where "m0 = m\<lparr>pending_access := remove_nth n (pending_access m)\<rparr>"
  have c0: "consistent m0"
    using c by (rule consistent_frame) (auto simp: m0_def set_remove_nth)
  from c cl have ok: "ac_session cl < allocated m
         \<and> prefix (projectRoot (heap m (ac_session cl))) (ac_newPath cl)"
    by (rule consistent_access)
  show ?thesis
  proof (cases err)
    case True
    with c0 show ?thesis by (simp add: access_callback_def m0_def Let_def)
  next
    case False
    define a where "a = ac_session cl"
    define m1 where "m1 = m0\<lparr>heap := (heap m0)(a := (heap m0 a)\<lparr>cwd := ac_newPath cl\<rparr>)\<rparr>"
    have "consistent m1"
    proof (rule consistentI)
      fix sid b assume "sessions m1 sid = Some b"
      with c0 show "b < allocated m1"
        by (auto simp: m1_def dest: consistent_registry)
    next
      fix b assume "b < allocated m1"
      with c0 ok show "prefix (projectRoot (heap m1 b)) (cwd (heap m1 b))"
        by (auto simp: m1_def m0_def a_def dest: consistent_sandbox)
    next
      fix c' assume "c' \<in> set (pending_access m1)"
      then have "c' \<in> set (pending_access m0)" by (simp add: m1_def)
      with c0 have "ac_session c' < allocated m0
             \<and> prefix (projectRoot (heap m0 (ac_session c'))) (ac_newPath c')"
        by (rule consistent_access)
      then show "ac_session c' < allocated m1
             \<and> prefix (projectRoot (heap m1 (ac_session c'))) (ac_newPath c')"
        by (auto simp: m1_def)
    next
      fix p b s assume "handlers m1 p = Some (b, s)"
      then have "handlers m0 p = Some (b, s)" by (simp add: m1_def)
      with c0 have "p < spawned m0 \<and> b < allocated m0 \<and> pty (heap m0 b) = Some p"
        by (rule consistent_handlers)
      then show "p < spawned m1 \<and> b < allocated m1 \<and> pty (heap m1 b) = Some p"
        by (auto simp: m1_def)
    next
      fix b p assume "pty (heap m1 b) = Some p"
      then have "pty (heap m0 b) = Some p" by (auto simp: m1_def split: if_splits)
      with c0 show "\<exists>s. handlers m1 p = Some (b, s)"
        by (auto simp: m1_def dest: consistent_attached)
    qed
    with False show ?thesis
      by (simp add: access_callback_def m1_def m0_def a_def Let_def)
  qed
qed

lemma consistent_step:
  assumes c: "consistent m"
  shows "consistent (snd (step h e m))"
proof (cases e)
  case (HandleInput w socketId data socket)
  with c show ?thesis
    using consistent_handleInput [of m h w socketId data socket] 
    by (cases "handleInput h w socketId data socket m") auto
next
  case (CreateSession w socketId socket userId)
  with c show ?thesis
    using consistent_createSession [of m h w socketId socket userId]
    by (cases "createSession h w socketId socket userId m") auto
next
  case (Resize socketId cols rows)
  with c show ?thesis by (simp add: resize_state)
next
  case (Kill socketId)
  with c show ?thesis by (simp add: consistent_kill)
next
  case (AccessDone n err)
  with c show ?thesis by (simp add: consistent_access_callback)
next
  case (TimerFired n)
  have "consistent (m\<lparr>pending_timers := remove_nth n (pending_timers m)\<rparr>)"
    using c by (rule consistent_frame) auto
  with c TimerFired show ?thesis by (simp add: consistent_scanPorts)
next
  case (ExecDone n out)
  have "consistent (m\<lparr>pending_execs := remove_nth n (pending_execs m)\<rparr>)"
    using c by (rule consistent_frame) auto
  with c ExecDone show ?thesis by simp
next
  case (PtyData p data)
  with c show ?thesis by (simp add: consistent_onData)
next
  case (PtyExit p)
  with c show ?thesis by (simp add: consistent_onExit)
qed

lemma snd_run_Cons: "snd (run h (e # es) m) = snd (run h es (snd (step h e m)))"
  by (simp add: split_beta)

lemma consistent_run: "consistent m \<Longrightarrow> consistent (snd (run h es m))"
proof (induction es arbitrary: m)
  case Nil
  then show ?case by simp
next
  case (Cons e es)
  then show ?case
    unfolding snd_run_Cons by (intro Cons.IH consistent_step)
qed

lemma consistent_after: "consistent (after h es)"
  unfolding after_def by (rule consistent_run [OF consistent_new])

section \<open>Stripping the title sequences\<close>

lemma title_seq_shape:
  "title_seq s = Some k \<Longrightarrow> \<exists>r. s = ESC # CHR '']'' # CHR ''0'' # CHR '';'' # r"
  by (auto simp: title_seq_def prefix_def split: if_splits)

lemma remove_all_keeps_head:
  "c \<noteq> ESC \<Longrightarrow> remove_all title_seq (c # cs) = c # remove_all title_seq cs"
  using title_seq_shape [of "c # cs"] by (cases "title_seq (c # cs)") auto

lemma set_remove_all: "set (remove_all m s) \<subseteq> set s"
proof (induction m s rule: remove_all.induct)
  case (1 m)
  then show ?case by simp
next
  case (2 m c cs)
  show ?case
  proof (cases "m (c # cs)")
    case None
    with 2 show ?thesis by auto
  next
    case (Some k)
    with 2 have "set (remove_all m (drop (k - 1) cs)) \<subseteq> set (drop (k - 1) cs)"
      by simp
    also have "\<dots> \<subseteq> set cs"
      by (rule set_drop_subset)
    finally show ?thesis
      using Some by auto
  qed
qed

lemma title_detached_drop: "title_detached s \<Longrightarrow> title_detached (drop n s)"
proof (induction n arbitrary: s)
  case 0
  then show ?case by simp
next
  case (Suc n)
  then show ?case by (cases s) auto
qed

lemma kept_head:
  "title_seq cs = None \<Longrightarrow> remove_all title_seq cs = b # r \<Longrightarrow>
     \<exists>cs'. cs = b # cs' \<and> remove_all title_seq cs' = r"
  by (cases cs) auto

lemma takeWhile_shorter: "length (takeWhile P r) < length r \<longleftrightarrow> (\<exists>x\<in>set r. \<not> P x)"
  by (induction r) auto

lemma title_seq_unfinished:
  "title_seq (ESC # CHR '']'' # CHR ''0'' # CHR '';'' # r) = None \<longleftrightarrow> BEL \<notin> set r"
  by (auto simp: title_seq_def delimited_def Let_def takeWhile_shorter)

text \<open>
  A character that the scan keeps cannot begin a title sequence afterwards, as long as no
  removal closes a gap inside the introducer.
\<close>

lemma kept_begins_no_title:
  assumes det: "\<not> lodged (c # cs)" and none: "title_seq (c # cs) = None"
  shows "title_seq (c # remove_all title_seq cs) = None"
proof (cases "title_seq (c # remove_all title_seq cs)")
  case None
  then show ?thesis .
next
  case (Some k)
  then obtain r where
    r: "c # remove_all title_seq cs = ESC # CHR '']'' # CHR ''0'' # CHR '';'' # r"
    using title_seq_shape by blast
  then have c: "c = ESC" and r0: "remove_all title_seq cs = CHR '']'' # CHR ''0'' # CHR '';'' # r"
    by simp_all
  from det c have "title_seq cs = None"
    by (simp add: lodged_def)
  from kept_head [OF this r0] obtain cs1 where
    cs1: "cs = CHR '']'' # cs1" "remove_all title_seq cs1 = CHR ''0'' # CHR '';'' # r"
    by blast
  from det c cs1(1) have "title_seq cs1 = None"
    by (simp add: lodged_def)
  from kept_head [OF this cs1(2)] obtain cs2 where
    cs2: "cs1 = CHR ''0'' # cs2" "remove_all title_seq cs2 = CHR '';'' # r"
    by blast
  from det c cs1(1) cs2(1) have "title_seq cs2 = None"
    by (simp add: lodged_def)
  from kept_head [OF this cs2(2)] obtain cs3 where
    cs3: "cs2 = CHR '';'' # cs3" "remove_all title_seq cs3 = r"
    by blast
  from none have "BEL \<notin> set cs3"
    using c cs1(1) cs2(1) cs3(1) title_seq_unfinished by simp
  then have "BEL \<notin> set r"
    using cs3(2) set_remove_all by blast
  then have "title_seq (ESC # CHR '']'' # CHR ''0'' # CHR '';'' # r) = None"
    by (simp add: title_seq_unfinished)
  with Some r show ?thesis by simp
qed

lemma remove_all_title_twice:
  "title_detached s \<Longrightarrow>
     remove_all title_seq (remove_all title_seq s) = remove_all title_seq s"
proof (induction "title_seq" s rule: remove_all.induct)
  case 1
  then show ?case by simp
next
  case (2 c cs)
  show ?case
  proof (cases "title_seq (c # cs)")
    case None
    from "2.prems" have "title_detached cs" and nl: "\<not> lodged (c # cs)"
      by simp_all
    with 2 None have ih:
      "remove_all title_seq (remove_all title_seq cs) = remove_all title_seq cs"
      by simp
    have "title_seq (c # remove_all title_seq cs) = None"
      using nl None by (rule kept_begins_no_title)
    with None ih show ?thesis by simp
  next
    case (Some k)
    from "2.prems" have "title_detached cs"
      by simp
    then have "title_detached (drop (k - 1) cs)"
      by (rule title_detached_drop)
    with 2 Some show ?thesis by simp
  qed
qed

lemma filterOutput_later_chunk:
  "initialOutputReceived session \<Longrightarrow> filterOutput data session = (strip_title data, session)"
  by (simp add: filterOutput_def)

text \<open>
  C10.  The step of \<open>filterOutput\<close> that runs on every chunk, \<open>strip_title\<close>, is not
  idempotent on every chunk.  In the chunk ESC ESC ] 0 ; BEL ] 0 ; BEL the scan removes
  the title sequence that begins at the second ESC; what is left, ESC ] 0 ; BEL, is a
  title sequence again, and a second application removes it.
\<close>

theorem strip_title_twice_counterexample:
  "strip_title (strip_title [ESC, ESC, CHR '']'', CHR ''0'', CHR '';'', BEL,
                             CHR '']'', CHR ''0'', CHR '';'', BEL])
     \<noteq> strip_title [ESC, ESC, CHR '']'', CHR ''0'', CHR '';'', BEL,
                     CHR '']'', CHR ''0'', CHR '';'', BEL]"
  by (simp add: strip_title_def title_seq_def delimited_def)

text \<open>
  C10, as amended.  On every chunk in which no title sequence begins directly after ESC,
  after ESC \<open>]\<close> or after ESC \<open>]\<close> \<open>0\<close>, stripping the title sequences twice gives what
  stripping them once gives.
\<close>

theorem strip_title_idempotent:
  "title_detached data \<Longrightarrow> strip_title (strip_title data) = strip_title data"
  unfolding strip_title_def by (rule remove_all_title_twice)

theorem strip_title_idempotent_witness:
  "title_detached (''[1] exit 0'' @ [ESC] @ '']0;npm'' @ [BEL] @ [ESC] @ ''[0mdone'')
   \<and> strip_title (''[1] exit 0'' @ [ESC] @ '']0;npm'' @ [BEL] @ [ESC] @ ''[0mdone'')
       = ''[1] exit 0'' @ [ESC] @ ''[0mdone''
   \<and> strip_title (strip_title
         (''[1] exit 0'' @ [ESC] @ '']0;npm'' @ [BEL] @ [ESC] @ ''[0mdone''))
       = strip_title (''[1] exit 0'' @ [ESC] @ '']0;npm'' @ [BEL] @ [ESC] @ ''[0mdone'')"
proof -
  have d: "title_detached (''[1] exit 0'' @ [ESC] @ '']0;npm'' @ [BEL] @ [ESC] @ ''[0mdone'')"
    by (simp add: lodged_def title_seq_def)
  have "strip_title (''[1] exit 0'' @ [ESC] @ '']0;npm'' @ [BEL] @ [ESC] @ ''[0mdone'')
       = ''[1] exit 0'' @ [ESC] @ ''[0mdone''"
    by (simp add: strip_title_def title_seq_def delimited_def)
  with d strip_title_idempotent [OF d] show ?thesis
    by simp
qed

section \<open>The sandbox\<close>

lemma split_on_not_Nil: "split_on d s \<noteq> []"
  by (induction s) (auto simp: Let_def)

lemma is_cd_parts: "is_cd s \<Longrightarrow> hd (split_on (CHR '' '') s) = ''cd''"
  by (auto simp: is_cd_def prefix_def Let_def)

lemma resolve_alias_cd: "is_cd s \<Longrightarrow> resolve_alias s = s"
  by (simp add: resolve_alias_def is_cd_parts aliases_def object_prototype_def Let_def)

lemma smart_interceptor_other:
  "s \<noteq> ''npm start'' \<Longrightarrow> smart_interceptor h w session socket s = ([], s)"
  by (simp add: smart_interceptor_def)

lemma is_cd_not_empty: "is_cd s \<Longrightarrow> s \<noteq> [] \<and> s \<noteq> ''npm start''"
  by (auto simp: is_cd_def)

text \<open>What \<open>execute\<close> does with a \<open>cd\<close> command.\<close>

lemma execute_cd:
  assumes cs: "createSession h w socketId (Some socket) None m = (created, a, m0)"
    and cd: "is_cd (trim command)"
  shows "execute h w socketId command socket m =
     (let targetDir = cd_target h (trim command);
          newPath = path_resolve h (cwd (heap m0 a)) targetDir
      in if \<not> prefix (projectRoot (heap m0 a)) newPath
         then (created @ [Emit socket (Output access_denied)], m0)
         else (created @ [FsAccess newPath],
               m0\<lparr>pending_access := pending_access m0
                    @ [\<lparr>ac_session = a, ac_socket = socket,
                        ac_newPath = newPath, ac_targetDir = targetDir\<rparr>]\<rparr>))"
  using cs cd is_cd_not_empty [OF cd]
  by (simp add: execute_def resolve_alias_cd smart_interceptor_other Let_def)

text \<open>
  What the check of \<open>cd\<close> does keep: after every history, the working directory of
  every session object begins with the characters of its \<open>projectRoot\<close>; and a \<open>cd\<close>
  command whose resolved target does not begin with them gets the access-denied notice
  and changes nothing.
\<close>

lemma cwd_begins_with_root:
  "a < allocated (after h es) \<Longrightarrow>
     prefix (projectRoot (heap (after h es) a)) (cwd (heap (after h es) a))"
  using consistent_after [of h es] by (rule consistent_sandbox)

lemma cd_outside_denied:
  "createSession h w socketId (Some socket) None m = (created, a, m0)
   \<Longrightarrow> is_cd (trim command)
   \<Longrightarrow> \<not> prefix (projectRoot (heap m0 a))
          (path_resolve h (cwd (heap m0 a)) (cd_target h (trim command)))
   \<Longrightarrow> execute h w socketId command socket m
        = (created @ [Emit socket (Output access_denied)], m0)"
  by (simp add: execute_cd Let_def)

text \<open>
  C1.  Beginning with the characters of \<open>projectRoot\<close> is not being inside it.  The
  session of the user \<open>user\<close> has the sandbox root \<open>/tmp/teachgrid-workspace/user\<close>.  Its
  command \<open>cd ../user-evil\<close> resolves to \<open>/tmp/teachgrid-workspace/user-evil\<close>, a
  directory beside the root.  When that directory is readable, no access-denied notice
  is emitted, the client is told the working directory \<open>../user-evil\<close>, and the working
  directory of the session is that directory, which is neither the sandbox root nor
  nested under it.
\<close>

theorem cd_leaves_sandbox_tree:
  "fst (run sample_host
          [CreateSession empty_world ''s1'' (Some 7) (Some ''user''),
           HandleInput empty_world ''s1'' ''cd ../user-evil'' 7,
           AccessDone 0 False] new_manager)
     = [MkdirSync ''/tmp/teachgrid-workspace/user'', Emit 7 (TerminalCwd []),
        FsAccess ''/tmp/teachgrid-workspace/user-evil'', Emit 7 (TerminalCwd ''../user-evil'')]
   \<and> projectRoot (heap (after sample_host
                          [CreateSession empty_world ''s1'' (Some 7) (Some ''user''),
                           HandleInput empty_world ''s1'' ''cd ../user-evil'' 7,
                           AccessDone 0 False]) 0)
       = ''/tmp/teachgrid-workspace/user''
   \<and> cwd (heap (after sample_host
                   [CreateSession empty_world ''s1'' (Some 7) (Some ''user''),
                    HandleInput empty_world ''s1'' ''cd ../user-evil'' 7,
                    AccessDone 0 False]) 0)
       = ''/tmp/teachgrid-workspace/user-evil''
   \<and> \<not> nested_under
         (projectRoot (heap (after sample_host
                          [CreateSession empty_world ''s1'' (Some 7) (Some ''user''),
                           HandleInput empty_world ''s1'' ''cd ../user-evil'' 7,
                           AccessDone 0 False]) 0))
         (cwd (heap (after sample_host
                   [CreateSession empty_world ''s1'' (Some 7) (Some ''user''),
                    HandleInput empty_world ''s1'' ''cd ../user-evil'' 7,
                    AccessDone 0 False]) 0))"
  by code_simp

section \<open>Busy and idle\<close>

lemma singleton_list: "distinct xs \<Longrightarrow> set xs = {p} \<Longrightarrow> xs = [p]"
proof (cases xs)
  case Nil
  assume "set xs = {p}"
  with Nil show ?thesis by simp
next
  case (Cons x ys)
  assume d: "distinct xs" and s: "set xs = {p}"
  from s Cons have x: "x = p" by auto
  have "ys = []"
  proof (cases ys)
    case (Cons y zs)
    with s \<open>xs = x # ys\<close> have "y = p" by auto
    with d x Cons \<open>xs = x # ys\<close> show ?thesis by simp
  qed simp
  with x Cons show ?thesis by simp
qed

lemma running_attached:
  assumes c: "consistent m"
  shows "running m a = (case pty (heap m a) of None \<Rightarrow> [] | Some p \<Rightarrow> [p])"
proof (cases "pty (heap m a)")
  case None
  have "set (running m a) = {}"
  proof (rule ccontr)
    assume "set (running m a) \<noteq> {}"
    then obtain p where "p \<in> set (running m a)" by (cases "running m a") auto
    then obtain s where "handlers m p = Some (a, s)"
      by (auto simp: running_def split: option.splits)
    with c None show False
      by (auto dest: consistent_handlers)
  qed
  with None show ?thesis by simp
next
  case (Some p)
  with c obtain s where s: "handlers m p = Some (a, s)"
    using consistent_attached by blast
  with c have "p < spawned m"
    using consistent_handlers by blast
  with s have "p \<in> set (running m a)"
    by (simp add: running_def)
  moreover have "q = p" if "q \<in> set (running m a)" for q
  proof -
    from that obtain k where "handlers m q = Some (a, k)"
      by (auto simp: running_def split: option.splits)
    with c Some show ?thesis
      by (auto dest: consistent_handlers)
  qed
  ultimately have "set (running m a) = {p}" by blast
  moreover have "distinct (running m a)"
    by (simp add: running_def)
  ultimately have "running m a = [p]"
    by (intro singleton_list)
  with Some show ?thesis by simp
qed

text \<open>
  C5.  A session is busy when a process spawned for it has not exited.  After every
  history, a session object has a process attached exactly when it is busy, and the
  process attached is the one that runs.  When a process is attached, \<open>handleInput\<close>
  writes the bytes to it, unchanged, and does nothing else; when none is attached, it does
  what \<open>execute\<close> does.
\<close>

theorem attached_iff_busy:
  "running (after h es) a = (case pty (heap (after h es) a) of None \<Rightarrow> [] | Some p \<Rightarrow> [p])
   \<and> (sessions m socketId = Some b \<longrightarrow> pty (heap m b) = Some q
        \<longrightarrow> handleInput h w socketId data socket m = ([PtyWrite q data], m))
   \<and> (sessions m socketId = Some b \<longrightarrow> pty (heap m b) = None
        \<longrightarrow> handleInput h w socketId data socket m = execute h w socketId data socket m)"
  using running_attached [OF consistent_after, of h es a]
  by (auto simp: handleInput_def createSession_known write_stdin_def)

theorem attached_iff_busy_witness:
  "pty (heap (after sample_host [HandleInput empty_world ''s1'' ''node app.js'' 7]) 0) = Some 0
   \<and> running (after sample_host [HandleInput empty_world ''s1'' ''node app.js'' 7]) 0 = [0]
   \<and> handleInput sample_host empty_world ''s1'' ''ls'' 7
         (after sample_host [HandleInput empty_world ''s1'' ''node app.js'' 7])
       = ([PtyWrite 0 ''ls''],
          after sample_host [HandleInput empty_world ''s1'' ''node app.js'' 7])
   \<and> pty (heap (after sample_host
                   [HandleInput empty_world ''s1'' ''node app.js'' 7, PtyExit 0]) 0) = None
   \<and> running (after sample_host
                 [HandleInput empty_world ''s1'' ''node app.js'' 7, PtyExit 0]) 0 = []
   \<and> handleInput sample_host empty_world ''s1'' ''ls'' 7
         (after sample_host [HandleInput empty_world ''s1'' ''node app.js'' 7, PtyExit 0])
       = execute sample_host empty_world ''s1'' ''ls'' 7
           (after sample_host [HandleInput empty_world ''s1'' ''node app.js'' 7, PtyExit 0])"
proof -
  let ?busy = "after sample_host [HandleInput empty_world ''s1'' ''node app.js'' 7]"
  let ?idle = "after sample_host [HandleInput empty_world ''s1'' ''node app.js'' 7, PtyExit 0]"
  have b: "sessions ?busy ''s1'' = Some 0" "pty (heap ?busy 0) = Some 0"
    by code_simp+
  have i: "sessions ?idle ''s1'' = Some 0" "pty (heap ?idle 0) = None"
    by code_simp+
  from attached_iff_busy [where h = sample_host
      and es = "[HandleInput empty_world ''s1'' ''node app.js'' 7]" and a = 0
      and m = ?busy and socketId = "''s1''" and b = 0 and q = 0 and w = empty_world
      and data = "''ls''" and socket = 7]
    attached_iff_busy [where h = sample_host
      and es = "[HandleInput empty_world ''s1'' ''node app.js'' 7, PtyExit 0]" and a = 0
      and m = ?idle and socketId = "''s1''" and b = 0 and w = empty_world
      and data = "''ls''" and socket = 7]
    b i
  show ?thesis by simp
qed

section \<open>The sandbox check\<close>

text \<open>
  C2.  The check of \<open>cd\<close> compares strings: whenever the resolved target begins with the
  string \<open>projectRoot\<close>, \<open>execute\<close> accepts it and asks \<open>fs.access\<close> for it.  With the
  sandbox root \<open>/tmp/teachgrid-workspace/user\<close>, the command \<open>cd ../user-evil\<close> resolves
  to \<open>/tmp/teachgrid-workspace/user-evil\<close>, a directory beside the sandbox and not inside
  it; it is accepted, and becomes the working directory when it is readable.
\<close>

theorem sandbox_check_is_string_prefix:
  "(sessions m socketId = Some a \<longrightarrow> is_cd (trim command)
      \<longrightarrow> newPath = path_resolve h (cwd (heap m a)) (cd_target h (trim command))
      \<longrightarrow> prefix (projectRoot (heap m a)) newPath
      \<longrightarrow> execute h w socketId command socket m
            = ([FsAccess newPath],
               m\<lparr>pending_access := pending_access m
                    @ [\<lparr>ac_session = a, ac_socket = socket, ac_newPath = newPath,
                        ac_targetDir = cd_target h (trim command)\<rparr>]\<rparr>))
   \<and> projectRoot (heap (after sample_host
                          [CreateSession empty_world ''s1'' (Some 7) (Some ''user'')]) 0)
       = ''/tmp/teachgrid-workspace/user''
   \<and> fst (execute sample_host empty_world ''s1'' ''cd ../user-evil'' 7
             (after sample_host [CreateSession empty_world ''s1'' (Some 7) (Some ''user'')]))
       = [FsAccess ''/tmp/teachgrid-workspace/user-evil'']
   \<and> \<not> prefix (segments ''/tmp/teachgrid-workspace/user'')
               (segments ''/tmp/teachgrid-workspace/user-evil'')
   \<and> cwd (heap (after sample_host
                   [CreateSession empty_world ''s1'' (Some 7) (Some ''user''),
                    HandleInput empty_world ''s1'' ''cd ../user-evil'' 7,
                    AccessDone 0 False]) 0)
       = ''/tmp/teachgrid-workspace/user-evil''"
proof -
  have "projectRoot (heap (after sample_host
                          [CreateSession empty_world ''s1'' (Some 7) (Some ''user'')]) 0)
       = ''/tmp/teachgrid-workspace/user''"
    by code_simp
  moreover have "fst (execute sample_host empty_world ''s1'' ''cd ../user-evil'' 7
             (after sample_host [CreateSession empty_world ''s1'' (Some 7) (Some ''user'')]))
       = [FsAccess ''/tmp/teachgrid-workspace/user-evil'']"
    by code_simp
  moreover have "\<not> prefix (segments ''/tmp/teachgrid-workspace/user'')
               (segments ''/tmp/teachgrid-workspace/user-evil'')"
    by code_simp
  moreover have "cwd (heap (after sample_host
                   [CreateSession empty_world ''s1'' (Some 7) (Some ''user''),
                    HandleInput empty_world ''s1'' ''cd ../user-evil'' 7,
                    AccessDone 0 False]) 0)
       = ''/tmp/teachgrid-workspace/user-evil''"
    by code_simp
  ultimately show ?thesis
    by (auto simp: execute_cd createSession_known Let_def)
qed

theorem sandbox_check_is_string_prefix_witness:
  "prefix ''/tmp/teachgrid-workspace/user'' ''/tmp/teachgrid-workspace/user-evil''
   \<and> execute sample_host empty_world ''s1'' ''cd ../user-evil'' 7
         (after sample_host [CreateSession empty_world ''s1'' (Some 7) (Some ''user'')])
       = ([FsAccess ''/tmp/teachgrid-workspace/user-evil''],
          (after sample_host [CreateSession empty_world ''s1'' (Some 7) (Some ''user'')])
            \<lparr>pending_access :=
               pending_access
                 (after sample_host [CreateSession empty_world ''s1'' (Some 7) (Some ''user'')])
               @ [\<lparr>ac_session = 0, ac_socket = 7,
                   ac_newPath = ''/tmp/teachgrid-workspace/user-evil'',
                   ac_targetDir = ''../user-evil''\<rparr>]\<rparr>)"
proof -
  let ?m = "after sample_host [CreateSession empty_world ''s1'' (Some 7) (Some ''user'')]"
  have s: "sessions ?m ''s1'' = Some 0"
    by code_simp
  have cd: "is_cd (trim ''cd ../user-evil'')"
    by code_simp
  have t: "cd_target sample_host (trim ''cd ../user-evil'') = ''../user-evil''"
    by code_simp
  have r: "''/tmp/teachgrid-workspace/user-evil''
           = path_resolve sample_host (cwd (heap ?m 0))
               (cd_target sample_host (trim ''cd ../user-evil''))"
    by code_simp
  have p: "prefix (projectRoot (heap ?m 0)) ''/tmp/teachgrid-workspace/user-evil''"
    by code_simp
  have q: "prefix ''/tmp/teachgrid-workspace/user'' ''/tmp/teachgrid-workspace/user-evil''"
    by code_simp
  from sandbox_check_is_string_prefix [where m = ?m and socketId = "''s1''" and a = 0
      and command = "''cd ../user-evil''" and h = sample_host and w = empty_world
      and socket = 7 and newPath = "''/tmp/teachgrid-workspace/user-evil''"]
    s cd r p q t
  show ?thesis by simp
qed

section \<open>Sessions created by input\<close>

lemma execute_keeps:
  assumes known: "sessions m socketId = Some a"
    and ex: "execute h w socketId command socket m = (acts, m')"
  shows "sessions m' = sessions m \<and> allocated m' = allocated m
         \<and> (\<forall>b. projectRoot (heap m' b) = projectRoot (heap m b))"
  using known ex by (cases rule: execute_state) auto

lemma handleInput_fresh:
  assumes new: "sessions m socketId = None"
    and hi: "handleInput h w socketId data socket m = (acts, m')"
  shows "sessions m' = (sessions m)(socketId \<mapsto> allocated m)
         \<and> allocated m' = Suc (allocated m)
         \<and> projectRoot (heap m' (allocated m))
             = path_join h [tmpdir h, ''teachgrid-workspace'', ''anonymous'']
         \<and> (\<forall>b. b \<noteq> allocated m \<longrightarrow> projectRoot (heap m' b) = projectRoot (heap m b))"
proof -
  obtain created a m0 where
    cs: "createSession h w socketId (Some socket) None m = (created, a, m0)"
    by (cases "createSession h w socketId (Some socket) None m")
  from cs new have m0: "a = allocated m"
      "sessions m0 = (sessions m)(socketId \<mapsto> allocated m)"
      "allocated m0 = Suc (allocated m)"
      "heap m0 = (heap m)(allocated m :=
         \<lparr>cwd = path_join h [tmpdir h, ''teachgrid-workspace'', ''anonymous''],
          projectRoot = path_join h [tmpdir h, ''teachgrid-workspace'', ''anonymous''],
          pty = None, initialOutputReceived = False\<rparr>)"
    by (auto simp: createSession_def Let_def)
  then have known: "sessions m0 socketId = Some a" and idle: "pty (heap m0 a) = None"
    by simp_all
  obtain acts1 m1 where ex: "execute h w socketId data socket m0 = (acts1, m1)"
    by (cases "execute h w socketId data socket m0")
  with hi cs idle have "m' = m1"
    by (simp add: handleInput_def)
  with execute_keeps [OF known ex] m0 show ?thesis
    by simp
qed

lemma handleInput_fresh_state:
  assumes new: "sessions m socketId = None"
  shows "sessions (snd (handleInput h w socketId data socket m))
           = (sessions m)(socketId \<mapsto> allocated m)"
    and "allocated (snd (handleInput h w socketId data socket m)) = Suc (allocated m)"
    and "projectRoot (heap (snd (handleInput h w socketId data socket m)) (allocated m))
           = path_join h [tmpdir h, ''teachgrid-workspace'', ''anonymous'']"
    and "b \<noteq> allocated m \<Longrightarrow>
           projectRoot (heap (snd (handleInput h w socketId data socket m)) b)
             = projectRoot (heap m b)"
proof -
  have hi: "handleInput h w socketId data socket m
      = (fst (handleInput h w socketId data socket m),
         snd (handleInput h w socketId data socket m))"
    by simp
  note f = handleInput_fresh [OF new hi]
  from f show "sessions (snd (handleInput h w socketId data socket m))
           = (sessions m)(socketId \<mapsto> allocated m)"
    by blast
  from f show "allocated (snd (handleInput h w socketId data socket m)) = Suc (allocated m)"
    by blast
  from f show "projectRoot (heap (snd (handleInput h w socketId data socket m)) (allocated m))
           = path_join h [tmpdir h, ''teachgrid-workspace'', ''anonymous'']"
    by blast
  from f show "b \<noteq> allocated m \<Longrightarrow>
           projectRoot (heap (snd (handleInput h w socketId data socket m)) b)
             = projectRoot (heap m b)"
    by blast
qed

text \<open>
  C3.  A session that \<open>handleInput\<close> creates has the sandbox root
  \<open>tmpdir/teachgrid-workspace/anonymous\<close>, whatever the socket id.  So two clients
  whose sessions are created by their input get two session objects with this one root.
\<close>

theorem handleInput_anonymous_root:
  "(sessions m s1 = None \<longrightarrow>
      (\<exists>a. sessions (snd (handleInput h w1 s1 d1 k1 m)) s1 = Some a
           \<and> projectRoot (heap (snd (handleInput h w1 s1 d1 k1 m)) a)
               = path_join h [tmpdir h, ''teachgrid-workspace'', ''anonymous'']))
   \<and> (sessions m s1 = None \<longrightarrow> sessions m s2 = None \<longrightarrow> s1 \<noteq> s2 \<longrightarrow>
        (\<exists>a1 a2. a1 \<noteq> a2
           \<and> sessions (snd (handleInput h w2 s2 d2 k2 (snd (handleInput h w1 s1 d1 k1 m)))) s1
               = Some a1
           \<and> sessions (snd (handleInput h w2 s2 d2 k2 (snd (handleInput h w1 s1 d1 k1 m)))) s2
               = Some a2
           \<and> projectRoot
                 (heap (snd (handleInput h w2 s2 d2 k2 (snd (handleInput h w1 s1 d1 k1 m)))) a1)
               = path_join h [tmpdir h, ''teachgrid-workspace'', ''anonymous'']
           \<and> projectRoot
                 (heap (snd (handleInput h w2 s2 d2 k2 (snd (handleInput h w1 s1 d1 k1 m)))) a2)
               = path_join h [tmpdir h, ''teachgrid-workspace'', ''anonymous'']))"
proof (intro conjI impI)
  assume new: "sessions m s1 = None"
  show "\<exists>a. sessions (snd (handleInput h w1 s1 d1 k1 m)) s1 = Some a
           \<and> projectRoot (heap (snd (handleInput h w1 s1 d1 k1 m)) a)
               = path_join h [tmpdir h, ''teachgrid-workspace'', ''anonymous'']"
    by (rule exI [of _ "allocated m"]) (simp add: handleInput_fresh_state [OF new])
next
  assume new1: "sessions m s1 = None" and new2: "sessions m s2 = None" and ne: "s1 \<noteq> s2"
  define m1 where "m1 = snd (handleInput h w1 s1 d1 k1 m)"
  define m2 where "m2 = snd (handleInput h w2 s2 d2 k2 m1)"
  note one = handleInput_fresh_state [OF new1, where h = h and w = w1 and data = d1 and socket = k1, folded m1_def]
  from one(1) new2 ne have new2': "sessions m1 s2 = None"
    by simp
  note two = handleInput_fresh_state [OF new2', where h = h and w = w2 and data = d2 and socket = k2, folded m2_def]
  have a: "allocated m \<noteq> allocated m1"
    using one(2) by simp
  have r1: "sessions m2 s1 = Some (allocated m)"
    using one(1) two(1) ne by simp
  have r2: "sessions m2 s2 = Some (allocated m1)"
    using two(1) by simp
  have p1: "projectRoot (heap m2 (allocated m))
         = path_join h [tmpdir h, ''teachgrid-workspace'', ''anonymous'']"
    using two(4) [OF a] one(3) by simp
  note p2 = two(3)
  show "\<exists>a1 a2. a1 \<noteq> a2
           \<and> sessions (snd (handleInput h w2 s2 d2 k2 (snd (handleInput h w1 s1 d1 k1 m)))) s1
               = Some a1
           \<and> sessions (snd (handleInput h w2 s2 d2 k2 (snd (handleInput h w1 s1 d1 k1 m)))) s2
               = Some a2
           \<and> projectRoot
                 (heap (snd (handleInput h w2 s2 d2 k2 (snd (handleInput h w1 s1 d1 k1 m)))) a1)
               = path_join h [tmpdir h, ''teachgrid-workspace'', ''anonymous'']
           \<and> projectRoot
                 (heap (snd (handleInput h w2 s2 d2 k2 (snd (handleInput h w1 s1 d1 k1 m)))) a2)
               = path_join h [tmpdir h, ''teachgrid-workspace'', ''anonymous'']"
    unfolding m1_def [symmetric] m2_def [symmetric]
    using a r1 r2 p1 p2 by (intro exI [of _ "allocated m"] exI [of _ "allocated m1"] conjI)
qed

theorem handleInput_anonymous_root_witness:
  "sessions new_manager ''alice'' = None \<and> sessions new_manager ''bob'' = None
   \<and> ''alice'' \<noteq> ''bob''
   \<and> path_join sample_host [tmpdir sample_host, ''teachgrid-workspace'', ''anonymous'']
       = ''/tmp/teachgrid-workspace/anonymous''
   \<and> (\<exists>a1 a2. a1 \<noteq> a2
         \<and> sessions (snd (handleInput sample_host empty_world ''bob'' ''dir'' 8
                       (snd (handleInput sample_host empty_world ''alice'' ''cd src'' 7
                               new_manager)))) ''alice'' = Some a1
         \<and> sessions (snd (handleInput sample_host empty_world ''bob'' ''dir'' 8
                       (snd (handleInput sample_host empty_world ''alice'' ''cd src'' 7
                               new_manager)))) ''bob'' = Some a2
         \<and> projectRoot
               (heap (snd (handleInput sample_host empty_world ''bob'' ''dir'' 8
                       (snd (handleInput sample_host empty_world ''alice'' ''cd src'' 7
                               new_manager)))) a1)
             = ''/tmp/teachgrid-workspace/anonymous''
         \<and> projectRoot
               (heap (snd (handleInput sample_host empty_world ''bob'' ''dir'' 8
                       (snd (handleInput sample_host empty_world ''alice'' ''cd src'' 7
                               new_manager)))) a2)
             = ''/tmp/teachgrid-workspace/anonymous'')"
proof -
  have n: "sessions new_manager ''alice'' = None" "sessions new_manager ''bob'' = None"
    by (simp_all add: new_manager_def)
  have d: "''alice'' \<noteq> ''bob''"
    by simp
  have r: "path_join sample_host [tmpdir sample_host, ''teachgrid-workspace'', ''anonymous'']
       = ''/tmp/teachgrid-workspace/anonymous''"
    by code_simp
  from handleInput_anonymous_root [where m = new_manager and ?s1.0 = "''alice''"
      and ?s2.0 = "''bob''" and h = sample_host and ?w1.0 = empty_world
      and ?w2.0 = empty_world and ?d1.0 = "''cd src''" and ?d2.0 = "''dir''"
      and ?k1.0 = 7 and ?k2.0 = 8]
  have "\<exists>a1 a2. a1 \<noteq> a2
         \<and> sessions (snd (handleInput sample_host empty_world ''bob'' ''dir'' 8
                       (snd (handleInput sample_host empty_world ''alice'' ''cd src'' 7
                               new_manager)))) ''alice'' = Some a1
         \<and> sessions (snd (handleInput sample_host empty_world ''bob'' ''dir'' 8
                       (snd (handleInput sample_host empty_world ''alice'' ''cd src'' 7
                               new_manager)))) ''bob'' = Some a2
         \<and> projectRoot
               (heap (snd (handleInput sample_host empty_world ''bob'' ''dir'' 8
                       (snd (handleInput sample_host empty_world ''alice'' ''cd src'' 7
                               new_manager)))) a1)
             = path_join sample_host [tmpdir sample_host, ''teachgrid-workspace'', ''anonymous'']
         \<and> projectRoot
               (heap (snd (handleInput sample_host empty_world ''bob'' ''dir'' 8
                       (snd (handleInput sample_host empty_world ''alice'' ''cd src'' 7
                               new_manager)))) a2)
             = path_join sample_host [tmpdir sample_host, ''teachgrid-workspace'', ''anonymous'']"
    using n d by blast
  with n d r show ?thesis
    by (simp only: simp_thms)
qed

section \<open>Changing the directory\<close>

lemma split_on_no_separator: "seg \<in> set (split_on d s) \<Longrightarrow> d \<notin> set seg"
proof (induction s arbitrary: seg)
  case Nil
  then show ?case by simp
next
  case (Cons c cs)
  have ne: "split_on d cs \<noteq> []"
    by (rule split_on_not_Nil)
  then have hd: "hd (split_on d cs) \<in> set (split_on d cs)"
    by simp
  have tl: "set (tl (split_on d cs)) \<subseteq> set (split_on d cs)"
    using ne by (cases "split_on d cs") auto
  from Cons.prems consider "seg = []" | "seg \<in> set (split_on d cs)"
    | "c \<noteq> d" "seg = c # hd (split_on d cs)"
    using tl by (auto simp: Let_def split: if_splits)
  then show ?case
  proof cases
    case 1
    then show ?thesis by simp
  next
    case 2
    then show ?thesis by (rule Cons.IH)
  next
    case 3
    with Cons.IH [OF hd] show ?thesis by simp
  qed
qed

lemma join_with_head: "x \<noteq> [] \<Longrightarrow> join_with sep (x # xs) = hd x # tl (join_with sep (x # xs))"
  by (cases xs; cases x) auto

lemma posix_relative_not_absolute: "\<not> prefix ''/'' (posix_relative process_cwd from to)"
proof -
  have join: "\<not> prefix ''/'' (join_with ''/'' (replicate k ''..'' @ drop n (segments p)))"
    for k n p
  proof (cases "replicate k ''..'' @ drop n (segments p)")
    case Nil
    then show ?thesis by simp
  next
    case (Cons x xs)
    have "x \<noteq> [] \<and> hd x \<noteq> CHR ''/''"
    proof (cases k)
      case 0
      with Cons have "x \<in> set (drop n (segments p))"
        by simp
      then have "x \<in> set (segments p)"
        by (rule in_set_dropD)
      then have "x \<noteq> []" "CHR ''/'' \<notin> set x"
        by (auto simp: segments_def dest: split_on_no_separator)
      then show ?thesis
        by (cases x) auto
    next
      case (Suc j)
      with Cons have "x = ''..''" by simp
      then show ?thesis by simp
    qed
    then have "join_with ''/'' (x # xs) = hd x # tl (join_with ''/'' (x # xs))"
        and "hd x \<noteq> CHR ''/''"
      by (simp_all add: join_with_head [symmetric])
    then have "\<not> prefix ''/'' (join_with ''/'' (x # xs))"
      by (metis Cons_prefix_Cons)
    with Cons show ?thesis
      by simp
  qed
  show ?thesis
    unfolding posix_relative_def Let_def using join by simp
qed

lemma remove_nth_last: "remove_nth (length xs) (xs @ [x]) = xs"
  by (simp add: remove_nth_def)

text \<open>
  C4.  For a \<open>cd\<close> command whose resolved target begins with \<open>projectRoot\<close>, \<open>execute\<close>
  only asks \<open>fs.access\<close> for the target and leaves its callback waiting.  When the answer
  is an error, the callback emits the no-such-directory notice and the manager is as it
  was before the command.  When the target is there and readable, the callback stores the
  resolved path as working directory and emits \<open>terminal:cwd\<close> with \<open>path.relative\<close> of
  sandbox root and new path.  The same holds when the answer comes later, in another state
  of the manager.  No step spawns a process.  On a POSIX host, \<open>path.relative\<close> never
  returns an absolute path.
\<close>

theorem cd_inside_sandbox:
  "(sessions m socketId = Some a \<longrightarrow> is_cd (trim command)
      \<longrightarrow> targetDir = cd_target h (trim command)
      \<longrightarrow> newPath = path_resolve h (cwd (heap m a)) targetDir
      \<longrightarrow> prefix (projectRoot (heap m a)) newPath
      \<longrightarrow> c = \<lparr>ac_session = a, ac_socket = socket, ac_newPath = newPath,
                ac_targetDir = targetDir\<rparr>
      \<longrightarrow> execute h w socketId command socket m
            = ([FsAccess newPath], m\<lparr>pending_access := pending_access m @ [c]\<rparr>)
          \<and> step h (AccessDone (length (pending_access m)) True)
                (m\<lparr>pending_access := pending_access m @ [c]\<rparr>)
            = ([Emit socket (Output (no_such_directory targetDir))], m)
          \<and> step h (AccessDone (length (pending_access m)) False)
                (m\<lparr>pending_access := pending_access m @ [c]\<rparr>)
            = ([Emit socket (TerminalCwd (path_relative h (projectRoot (heap m a)) newPath))],
               m\<lparr>heap := (heap m)(a := (heap m a)\<lparr>cwd := newPath\<rparr>)\<rparr>))
   \<and> access_callback h c' True m'
       = ([Emit (ac_socket c') (Output (no_such_directory (ac_targetDir c')))], m')
   \<and> access_callback h c' False m'
       = ([Emit (ac_socket c')
             (TerminalCwd (path_relative h (projectRoot (heap m' (ac_session c')))
                             (ac_newPath c')))],
          m'\<lparr>heap := (heap m')(ac_session c' := (heap m' (ac_session c'))
                                                  \<lparr>cwd := ac_newPath c'\<rparr>)\<rparr>)
   \<and> \<not> prefix ''/'' (posix_relative process_cwd from to)"
proof -
  have later: "access_callback h c' True m'
       = ([Emit (ac_socket c') (Output (no_such_directory (ac_targetDir c')))], m')"
    "access_callback h c' False m'
       = ([Emit (ac_socket c')
             (TerminalCwd (path_relative h (projectRoot (heap m' (ac_session c')))
                             (ac_newPath c')))],
          m'\<lparr>heap := (heap m')(ac_session c' := (heap m' (ac_session c'))
                                                  \<lparr>cwd := ac_newPath c'\<rparr>)\<rparr>)"
    by (simp_all add: access_callback_def Let_def)
  have now: "execute h w socketId command socket m
            = ([FsAccess newPath], m\<lparr>pending_access := pending_access m @ [c]\<rparr>)
          \<and> step h (AccessDone (length (pending_access m)) True)
                (m\<lparr>pending_access := pending_access m @ [c]\<rparr>)
            = ([Emit socket (Output (no_such_directory targetDir))], m)
          \<and> step h (AccessDone (length (pending_access m)) False)
                (m\<lparr>pending_access := pending_access m @ [c]\<rparr>)
            = ([Emit socket (TerminalCwd (path_relative h (projectRoot (heap m a)) newPath))],
               m\<lparr>heap := (heap m)(a := (heap m a)\<lparr>cwd := newPath\<rparr>)\<rparr>)"
    if known: "sessions m socketId = Some a" and cd: "is_cd (trim command)"
      and t: "targetDir = cd_target h (trim command)"
      and n: "newPath = path_resolve h (cwd (heap m a)) targetDir"
      and p: "prefix (projectRoot (heap m a)) newPath"
      and c: "c = \<lparr>ac_session = a, ac_socket = socket, ac_newPath = newPath,
                ac_targetDir = targetDir\<rparr>"
  proof (intro conjI)
    from createSession_known [OF known] have
      cs: "createSession h w socketId (Some socket) None m = ([], a, m)" .
    show "execute h w socketId command socket m
            = ([FsAccess newPath], m\<lparr>pending_access := pending_access m @ [c]\<rparr>)"
      using p unfolding execute_cd [OF cs cd] t n c by (simp add: Let_def)
    have restored: "(m\<lparr>pending_access := pending_access m @ [c]\<rparr>)
                  \<lparr>pending_access := pending_access m\<rparr> = m"
      by simp
    show "step h (AccessDone (length (pending_access m)) True)
                (m\<lparr>pending_access := pending_access m @ [c]\<rparr>)
            = ([Emit socket (Output (no_such_directory targetDir))], m)"
      using restored by (simp add: remove_nth_last access_callback_def Let_def c)
    show "step h (AccessDone (length (pending_access m)) False)
                (m\<lparr>pending_access := pending_access m @ [c]\<rparr>)
            = ([Emit socket (TerminalCwd (path_relative h (projectRoot (heap m a)) newPath))],
               m\<lparr>heap := (heap m)(a := (heap m a)\<lparr>cwd := newPath\<rparr>)\<rparr>)"
      using restored by (simp add: remove_nth_last access_callback_def Let_def c)
  qed
  from now later posix_relative_not_absolute [of process_cwd "from" to]
  show ?thesis
    by blast
qed

theorem cd_inside_sandbox_witness:
  "execute sample_host empty_world ''s1'' ''cd src'' 7
     (after sample_host [CreateSession empty_world ''s1'' (Some 7) None])
     = ([FsAccess ''/tmp/teachgrid-workspace/anonymous/src''],
        (after sample_host [CreateSession empty_world ''s1'' (Some 7) None])
          \<lparr>pending_access :=
             [\<lparr>ac_session = 0, ac_socket = 7,
               ac_newPath = ''/tmp/teachgrid-workspace/anonymous/src'',
               ac_targetDir = ''src''\<rparr>]\<rparr>)
   \<and> step sample_host (AccessDone 0 True)
         ((after sample_host [CreateSession empty_world ''s1'' (Some 7) None])
            \<lparr>pending_access :=
               [\<lparr>ac_session = 0, ac_socket = 7,
                 ac_newPath = ''/tmp/teachgrid-workspace/anonymous/src'',
                 ac_targetDir = ''src''\<rparr>]\<rparr>)
       = ([Emit 7 (Output (no_such_directory ''src''))],
          after sample_host [CreateSession empty_world ''s1'' (Some 7) None])
   \<and> step sample_host (AccessDone 0 False)
         ((after sample_host [CreateSession empty_world ''s1'' (Some 7) None])
            \<lparr>pending_access :=
               [\<lparr>ac_session = 0, ac_socket = 7,
                 ac_newPath = ''/tmp/teachgrid-workspace/anonymous/src'',
                 ac_targetDir = ''src''\<rparr>]\<rparr>)
       = ([Emit 7 (TerminalCwd ''src'')],
          (after sample_host [CreateSession empty_world ''s1'' (Some 7) None])
            \<lparr>heap := (heap (after sample_host [CreateSession empty_world ''s1'' (Some 7) None]))
                       (0 := (heap (after sample_host
                                      [CreateSession empty_world ''s1'' (Some 7) None]) 0)
                               \<lparr>cwd := ''/tmp/teachgrid-workspace/anonymous/src''\<rparr>)\<rparr>)"
proof -
  let ?m = "after sample_host [CreateSession empty_world ''s1'' (Some 7) None]"
  have s: "sessions ?m ''s1'' = Some 0"
    by code_simp
  have k: "is_cd (trim ''cd src'')"
    by code_simp
  have t: "''src'' = cd_target sample_host (trim ''cd src'')"
    by code_simp
  have n: "''/tmp/teachgrid-workspace/anonymous/src''
           = path_resolve sample_host (cwd (heap ?m 0)) ''src''"
    by code_simp
  have p: "prefix (projectRoot (heap ?m 0)) ''/tmp/teachgrid-workspace/anonymous/src''"
    by code_simp
  have r: "path_relative sample_host (projectRoot (heap ?m 0))
             ''/tmp/teachgrid-workspace/anonymous/src'' = ''src''"
    by code_simp
  have e: "pending_access ?m = []"
    by code_simp
  from cd_inside_sandbox [where m = ?m and socketId = "''s1''" and a = 0
      and command = "''cd src''" and targetDir = "''src''" and h = sample_host
      and newPath = "''/tmp/teachgrid-workspace/anonymous/src''" and socket = 7
      and w = empty_world
      and c = "\<lparr>ac_session = 0, ac_socket = 7,
                ac_newPath = ''/tmp/teachgrid-workspace/anonymous/src'',
                ac_targetDir = ''src''\<rparr>"]
    s k t n p
  have "execute sample_host empty_world ''s1'' ''cd src'' 7 ?m
            = ([FsAccess ''/tmp/teachgrid-workspace/anonymous/src''],
               ?m\<lparr>pending_access := pending_access ?m
                    @ [\<lparr>ac_session = 0, ac_socket = 7,
                ac_newPath = ''/tmp/teachgrid-workspace/anonymous/src'',
                ac_targetDir = ''src''\<rparr>]\<rparr>)
          \<and> step sample_host (AccessDone (length (pending_access ?m)) True)
                (?m\<lparr>pending_access := pending_access ?m @ [\<lparr>ac_session = 0, ac_socket = 7,
                ac_newPath = ''/tmp/teachgrid-workspace/anonymous/src'',
                ac_targetDir = ''src''\<rparr>]\<rparr>)
            = ([Emit 7 (Output (no_such_directory ''src''))], ?m)
          \<and> step sample_host (AccessDone (length (pending_access ?m)) False)
                (?m\<lparr>pending_access := pending_access ?m @ [\<lparr>ac_session = 0, ac_socket = 7,
                ac_newPath = ''/tmp/teachgrid-workspace/anonymous/src'',
                ac_targetDir = ''src''\<rparr>]\<rparr>)
            = ([Emit 7 (TerminalCwd (path_relative sample_host (projectRoot (heap ?m 0))
                  ''/tmp/teachgrid-workspace/anonymous/src''))],
               ?m\<lparr>heap := (heap ?m)(0 := (heap ?m 0)
                   \<lparr>cwd := ''/tmp/teachgrid-workspace/anonymous/src''\<rparr>)\<rparr>)"
    by blast
  then show ?thesis
    unfolding r e by simp
qed

lemma posix_resolve_absolute:
  "prefix ''/'' target \<Longrightarrow>
     posix_resolve process_cwd [dir, target] = ''/'' @ normalizeString (target @ ''/'') False"
  by (cases target) (auto simp: posix_resolve_def Let_def)

text \<open>
  C6.  Take a host whose home directory is not a path written in double quotes and,
  resolved against the working directory, does not begin with the sandbox root of the
  session.  Then for every input that is \<open>cd\<close> once trimmed, the target is the home
  directory, and \<open>execute\<close> emits the access-denied notice and leaves the manager as it
  is: no such input changes the working directory or leaves a callback that would.  On a
  POSIX host the home directory is an absolute path, and resolves to the same path from
  every working directory.
\<close>

theorem bare_cd_denied:
  "sessions m socketId = Some a \<Longrightarrow> trim command = ''cd''
   \<Longrightarrow> \<not> (prefix [CHR 0x22] (homedir h) \<and> suffix [CHR 0x22] (homedir h))
   \<Longrightarrow> \<not> prefix (projectRoot (heap m a)) (path_resolve h (cwd (heap m a)) (homedir h))
   \<Longrightarrow> cd_target h (trim command) = homedir h
       \<and> execute h w socketId command socket m = ([Emit socket (Output access_denied)], m)
       \<and> (pty (heap m a) = None \<longrightarrow>
            handleInput h w socketId command socket m
              = ([Emit socket (Output access_denied)], m))
       \<and> (prefix ''/'' home \<longrightarrow>
            path_resolve (posix_host process_cwd tmp home) dir home
              = path_resolve (posix_host process_cwd tmp home) dir' home)"
proof -
  assume known: "sessions m socketId = Some a" and bare: "trim command = ''cd''"
    and q: "\<not> (prefix [CHR 0x22] (homedir h) \<and> suffix [CHR 0x22] (homedir h))"
    and out: "\<not> prefix (projectRoot (heap m a)) (path_resolve h (cwd (heap m a)) (homedir h))"
  from q have t: "cd_target h (trim command) = homedir h"
    unfolding bare by (auto simp: cd_target_def Let_def)
  have k: "is_cd (trim command)"
    unfolding bare by (simp add: is_cd_def)
  from createSession_known [OF known] have
    cs: "createSession h w socketId (Some socket) None m = ([], a, m)" .
  have e: "execute h w socketId command socket m = ([Emit socket (Output access_denied)], m)"
    using out unfolding execute_cd [OF cs k] t by (simp add: Let_def)
  then have "pty (heap m a) = None \<longrightarrow>
            handleInput h w socketId command socket m
              = ([Emit socket (Output access_denied)], m)"
    by (simp add: handleInput_def cs)
  moreover have "prefix ''/'' home \<longrightarrow>
            path_resolve (posix_host process_cwd tmp home) dir home
              = path_resolve (posix_host process_cwd tmp home) dir' home"
    by (simp add: posix_host_def posix_resolve_absolute)
  ultimately show ?thesis
    using t e by blast
qed

theorem bare_cd_denied_witness:
  "sessions (after sample_host [HandleInput empty_world ''s1'' ''cd src'' 7, AccessDone 0 False])
     ''s1'' = Some 0
   \<and> trim ''  cd '' = ''cd''
   \<and> homedir sample_host = ''/home/dev''
   \<and> path_resolve sample_host
        (cwd (heap (after sample_host
                      [HandleInput empty_world ''s1'' ''cd src'' 7, AccessDone 0 False]) 0))
        (homedir sample_host) = ''/home/dev''
   \<and> execute sample_host empty_world ''s1'' ''  cd '' 7
         (after sample_host [HandleInput empty_world ''s1'' ''cd src'' 7, AccessDone 0 False])
       = ([Emit 7 (Output access_denied)],
          after sample_host [HandleInput empty_world ''s1'' ''cd src'' 7, AccessDone 0 False])"
proof -
  let ?m = "after sample_host [HandleInput empty_world ''s1'' ''cd src'' 7, AccessDone 0 False]"
  have s: "sessions ?m ''s1'' = Some 0"
    by code_simp
  have b: "trim ''  cd '' = ''cd''"
    by code_simp
  have hd: "homedir sample_host = ''/home/dev''"
    by code_simp
  have q: "\<not> (prefix [CHR 0x22] (homedir sample_host) \<and> suffix [CHR 0x22] (homedir sample_host))"
    by code_simp
  have r: "path_resolve sample_host (cwd (heap ?m 0)) (homedir sample_host) = ''/home/dev''"
    by code_simp
  have out: "\<not> prefix (projectRoot (heap ?m 0))
               (path_resolve sample_host (cwd (heap ?m 0)) (homedir sample_host))"
    by code_simp
  from bare_cd_denied [OF s b q out, where w = empty_world and socket = 7] s b hd r
  show ?thesis
    by blast
qed

section \<open>The interceptor of \<open>npm start\<close>\<close>

lemma not_cd_npm: "\<not> is_cd ''npm start''" "\<not> is_cd ''npm run dev''"
  by (simp_all add: is_cd_def)

lemma execute_spawns:
  assumes known: "sessions m socketId = Some a"
    and cmd: "resolve_alias (trim command) = ''npm start''"
    and si: "smart_interceptor h w (heap m a) socket ''npm start'' = (noticed, cmd')"
    and cmd': "cmd' = ''npm start'' \<or> cmd' = ''npm run dev''"
  shows "execute h w socketId command socket m
         = (noticed @ fst (spawn_command h w a socket cmd' m),
            snd (spawn_command h w a socket cmd' m))"
proof -
  have "trim command \<noteq> []"
    using cmd by (auto simp: resolve_alias_def Let_def aliases_def object_prototype_def)
  with known cmd si cmd' not_cd_npm show ?thesis
    by (auto simp: execute_known Let_def split: prod.splits)
qed

lemma spawn_command_actions:
  "\<exists>rest. fst (spawn_command h w a socket cmd m)
            = PtySpawn (shell h) (shell_args h cmd) 80 30 (cwd (heap m a)) # rest
          \<and> Emit socket (Output redirect_notice) \<notin> set rest"
  by (auto simp: spawn_command_def Let_def redirect_notice_def split: option.splits)

text \<open>
  C7, as stated, fails where the manifest declares a script whose text is empty.  With
  \<open>"scripts": {"start": "", "dev": "vite"}\<close> the manifest declares both scripts, and
  \<open>npm start\<close> is rewritten all the same: \<open>!pkg.scripts.start\<close> holds of the empty string.
\<close>

theorem npm_start_rewrite_counterexample:
  "get_member (JObj [(''start'', JStr ''''), (''dev'', JStr ''vite'')]) ''start'' = Some (JStr '''')
   \<and> get_member (JObj [(''start'', JStr ''''), (''dev'', JStr ''vite'')]) ''dev''
       = Some (JStr ''vite'')
   \<and> fst (execute sample_host
             (manifest_world
                (JObj [(''scripts'', JObj [(''start'', JStr ''''), (''dev'', JStr ''vite'')])]))
             ''s1'' ''npm start'' 7
             (after sample_host [CreateSession empty_world ''s1'' (Some 7) None]))
       = [Emit 7 (Output redirect_notice),
          PtySpawn ''bash'' [''-c'', ''npm run dev''] 80 30 ''/tmp/teachgrid-workspace/anonymous'',
          Emit 7 (TerminalStatus True), SetTimeout 2000]"
  by code_simp

lemma truthy_member: "truthy (get_member scripts name) \<Longrightarrow> truthy (Some scripts)"
  by (cases scripts) simp_all

lemma smart_interceptor_npm:
  "smart_interceptor h w session socket ''npm start'' =
     (if existsSync w (path_join h [cwd session, ''package.json''])
         \<and> (\<exists>pkg scripts. readJson w (path_join h [cwd session, ''package.json'']) = Some pkg
               \<and> get_member pkg ''scripts'' = Some scripts
               \<and> truthy (get_member scripts ''dev'') \<and> \<not> truthy (get_member scripts ''start''))
      then ([Emit socket (Output redirect_notice)], ''npm run dev'')
      else ([], ''npm start''))"
  by (auto simp: smart_interceptor_def Let_def truthy_member split: option.splits json.splits)

text \<open>
  C7, as amended.  For an input that is \<open>npm start\<close> after trimming and alias
  resolution: when the manifest \<open>package.json\<close> in the working directory exists and
  parses, and its \<open>scripts\<close> has a truthy \<open>dev\<close> and no truthy \<open>start\<close> (none at all, or
  an empty text, \<open>0\<close>, \<open>false\<close> or \<open>null\<close>), \<open>execute\<close> emits the notice once and spawns
  \<open>npm run dev\<close>.  In every other case it emits nothing about the manifest and spawns
  \<open>npm start\<close>: when the manifest is missing, when it cannot be read or parsed, when it
  has no \<open>scripts\<close> (as the manifest \<open>null\<close> has none), and when \<open>start\<close> is truthy or
  \<open>dev\<close> is not.
\<close>

theorem npm_start_rewrite:
  "sessions m socketId = Some a \<Longrightarrow> resolve_alias (trim command) = ''npm start''
   \<Longrightarrow> pkgPath = path_join h [cwd (heap m a), ''package.json'']
   \<Longrightarrow> (existsSync w pkgPath \<and> readJson w pkgPath = Some pkg
          \<and> get_member pkg ''scripts'' = Some scripts
          \<and> truthy (get_member scripts ''dev'') \<and> \<not> truthy (get_member scripts ''start'')
        \<longrightarrow> execute h w socketId command socket m
              = (Emit socket (Output redirect_notice)
                   # fst (spawn_command h w a socket ''npm run dev'' m),
                 snd (spawn_command h w a socket ''npm run dev'' m)))
       \<and> (\<not> existsSync w pkgPath \<or> readJson w pkgPath = None
            \<or> (\<exists>pkg. readJson w pkgPath = Some pkg
                   \<and> (get_member pkg ''scripts'' = None
                        \<or> (\<exists>scripts. get_member pkg ''scripts'' = Some scripts
                               \<and> (truthy (get_member scripts ''start'')
                                    \<or> \<not> truthy (get_member scripts ''dev'')))))
          \<longrightarrow> execute h w socketId command socket m
                = spawn_command h w a socket ''npm start'' m)
       \<and> (\<exists>rest. fst (spawn_command h w a socket cmd m)
                    = PtySpawn (shell h) (shell_args h cmd) 80 30 (cwd (heap m a)) # rest
                  \<and> Emit socket (Output redirect_notice) \<notin> set rest)"
proof -
  assume known: "sessions m socketId = Some a"
    and cmd: "resolve_alias (trim command) = ''npm start''"
    and path: "pkgPath = path_join h [cwd (heap m a), ''package.json'']"
  have rewritten: "execute h w socketId command socket m
              = (Emit socket (Output redirect_notice)
                   # fst (spawn_command h w a socket ''npm run dev'' m),
                 snd (spawn_command h w a socket ''npm run dev'' m))"
    if "existsSync w pkgPath \<and> readJson w pkgPath = Some pkg
          \<and> get_member pkg ''scripts'' = Some scripts
          \<and> truthy (get_member scripts ''dev'') \<and> \<not> truthy (get_member scripts ''start'')"
  proof -
    from that path have "smart_interceptor h w (heap m a) socket ''npm start''
        = ([Emit socket (Output redirect_notice)], ''npm run dev'')"
      unfolding smart_interceptor_npm by auto
    from execute_spawns [OF known cmd this] show ?thesis
      by simp
  qed
  have kept: "execute h w socketId command socket m
                = spawn_command h w a socket ''npm start'' m"
    if "\<not> existsSync w pkgPath \<or> readJson w pkgPath = None
            \<or> (\<exists>pkg. readJson w pkgPath = Some pkg
                   \<and> (get_member pkg ''scripts'' = None
                        \<or> (\<exists>scripts. get_member pkg ''scripts'' = Some scripts
                               \<and> (truthy (get_member scripts ''start'')
                                    \<or> \<not> truthy (get_member scripts ''dev'')))))"
  proof -
    from that path have "smart_interceptor h w (heap m a) socket ''npm start''
        = ([], ''npm start'')"
      unfolding smart_interceptor_npm by auto
    from execute_spawns [OF known cmd this] show ?thesis
      by simp
  qed
  from rewritten kept spawn_command_actions [of h w a socket cmd m] show ?thesis
    by blast
qed

theorem npm_start_rewrite_witness:
  "execute sample_host (manifest_world (JObj [(''scripts'', JObj [(''dev'', JStr ''vite'')])]))
     ''s1'' '' npm start '' 7 (after sample_host [CreateSession empty_world ''s1'' (Some 7) None])
     = (Emit 7 (Output redirect_notice)
          # fst (spawn_command sample_host
                   (manifest_world (JObj [(''scripts'', JObj [(''dev'', JStr ''vite'')])]))
                   0 7 ''npm run dev''
                   (after sample_host [CreateSession empty_world ''s1'' (Some 7) None])),
        snd (spawn_command sample_host
               (manifest_world (JObj [(''scripts'', JObj [(''dev'', JStr ''vite'')])]))
               0 7 ''npm run dev''
               (after sample_host [CreateSession empty_world ''s1'' (Some 7) None])))
   \<and> execute sample_host
         (manifest_world
            (JObj [(''scripts'', JObj [(''start'', JStr ''node server.js''),
                                        (''dev'', JStr ''vite'')])]))
         ''s1'' '' npm start '' 7
         (after sample_host [CreateSession empty_world ''s1'' (Some 7) None])
       = spawn_command sample_host
           (manifest_world
              (JObj [(''scripts'', JObj [(''start'', JStr ''node server.js''),
                                          (''dev'', JStr ''vite'')])]))
           0 7 ''npm start'' (after sample_host [CreateSession empty_world ''s1'' (Some 7) None])
   \<and> execute sample_host (manifest_world (JObj [(''name'', JStr ''app'')]))
         ''s1'' '' npm start '' 7
         (after sample_host [CreateSession empty_world ''s1'' (Some 7) None])
       = spawn_command sample_host (manifest_world (JObj [(''name'', JStr ''app'')]))
           0 7 ''npm start'' (after sample_host [CreateSession empty_world ''s1'' (Some 7) None])
   \<and> execute sample_host (manifest_world JNull) ''s1'' '' npm start '' 7
         (after sample_host [CreateSession empty_world ''s1'' (Some 7) None])
       = spawn_command sample_host (manifest_world JNull)
           0 7 ''npm start'' (after sample_host [CreateSession empty_world ''s1'' (Some 7) None])
   \<and> execute sample_host empty_world ''s1'' '' npm start '' 7
         (after sample_host [CreateSession empty_world ''s1'' (Some 7) None])
       = spawn_command sample_host empty_world 0 7 ''npm start''
           (after sample_host [CreateSession empty_world ''s1'' (Some 7) None])
   \<and> execute sample_host malformed_world ''s1'' '' npm start '' 7
         (after sample_host [CreateSession empty_world ''s1'' (Some 7) None])
       = spawn_command sample_host malformed_world 0 7 ''npm start''
           (after sample_host [CreateSession empty_world ''s1'' (Some 7) None])"
proof -
  let ?m = "after sample_host [CreateSession empty_world ''s1'' (Some 7) None]"
  let ?dev = "JObj [(''scripts'', JObj [(''dev'', JStr ''vite'')])]"
  let ?both = "JObj [(''scripts'', JObj [(''start'', JStr ''node server.js''),
                                          (''dev'', JStr ''vite'')])]"
  let ?bare = "JObj [(''name'', JStr ''app'')]"
  have s: "sessions ?m ''s1'' = Some 0"
    by code_simp
  have c: "resolve_alias (trim '' npm start '') = ''npm start''"
    by code_simp
  have p: "''/tmp/teachgrid-workspace/anonymous/package.json''
           = path_join sample_host [cwd (heap ?m 0), ''package.json'']"
    by code_simp
  have d: "existsSync (manifest_world ?dev) ''/tmp/teachgrid-workspace/anonymous/package.json''
      \<and> readJson (manifest_world ?dev) ''/tmp/teachgrid-workspace/anonymous/package.json''
          = Some ?dev
      \<and> get_member ?dev ''scripts'' = Some (JObj [(''dev'', JStr ''vite'')])
      \<and> truthy (get_member (JObj [(''dev'', JStr ''vite'')]) ''dev'')
      \<and> \<not> truthy (get_member (JObj [(''dev'', JStr ''vite'')]) ''start'')"
    by (simp add: manifest_world_def)
  have b: "readJson (manifest_world ?both) ''/tmp/teachgrid-workspace/anonymous/package.json''
          = Some ?both
      \<and> get_member ?both ''scripts''
          = Some (JObj [(''start'', JStr ''node server.js''), (''dev'', JStr ''vite'')])
      \<and> truthy (get_member (JObj [(''start'', JStr ''node server.js''),
                                    (''dev'', JStr ''vite'')]) ''start'')"
    by (simp add: manifest_world_def)
  have n: "readJson (manifest_world ?bare) ''/tmp/teachgrid-workspace/anonymous/package.json''
          = Some ?bare
      \<and> get_member ?bare ''scripts'' = None"
    by (simp add: manifest_world_def)
  have z: "readJson (manifest_world JNull) ''/tmp/teachgrid-workspace/anonymous/package.json''
          = Some JNull
      \<and> get_member JNull ''scripts'' = None"
    by (simp add: manifest_world_def)
  have e: "\<not> existsSync empty_world ''/tmp/teachgrid-workspace/anonymous/package.json''"
    by (simp add: empty_world_def)
  have f: "readJson malformed_world ''/tmp/teachgrid-workspace/anonymous/package.json'' = None"
    by (simp add: malformed_world_def)
  note t = npm_start_rewrite [OF s c p]
  from t [of "manifest_world ?dev" ?dev "JObj [(''dev'', JStr ''vite'')]" 7] d
  have 1: "execute sample_host (manifest_world ?dev) ''s1'' '' npm start '' 7 ?m
     = (Emit 7 (Output redirect_notice)
          # fst (spawn_command sample_host (manifest_world ?dev) 0 7 ''npm run dev'' ?m),
        snd (spawn_command sample_host (manifest_world ?dev) 0 7 ''npm run dev'' ?m))"
    by blast
  from t [of "manifest_world ?both"] b
  have 2: "execute sample_host (manifest_world ?both) ''s1'' '' npm start '' 7 ?m
       = spawn_command sample_host (manifest_world ?both) 0 7 ''npm start'' ?m"
    by blast
  from t [of "manifest_world ?bare"] n
  have 3: "execute sample_host (manifest_world ?bare) ''s1'' '' npm start '' 7 ?m
       = spawn_command sample_host (manifest_world ?bare) 0 7 ''npm start'' ?m"
    by blast
  from t [of "manifest_world JNull"] z
  have 4: "execute sample_host (manifest_world JNull) ''s1'' '' npm start '' 7 ?m
       = spawn_command sample_host (manifest_world JNull) 0 7 ''npm start'' ?m"
    by blast
  from t [of empty_world] e
  have 5: "execute sample_host empty_world ''s1'' '' npm start '' 7 ?m
       = spawn_command sample_host empty_world 0 7 ''npm start'' ?m"
    by blast
  from t [of malformed_world] f
  have 6: "execute sample_host malformed_world ''s1'' '' npm start '' 7 ?m
       = spawn_command sample_host malformed_world 0 7 ''npm start'' ?m"
    by blast
  from 1 2 3 4 5 6 show ?thesis
    by (intro conjI)
qed

section \<open>The port scan\<close>

lemma set_set_add: "set (set_add port ports) = insert port (set ports)"
  by (auto simp: set_add_def)

lemma distinct_set_add: "distinct ports \<Longrightarrow> distinct (set_add port ports)"
  by (auto simp: set_add_def)

lemma set_scan_line:
  "set (scan_line ports line) =
     set ports \<union> {port. \<exists>ds. port_match line = Some ds \<and> port = parseInt ds
                          \<and> 1024 < port \<and> port \<noteq> 3000 \<and> port \<noteq> 3001}"
  by (auto simp: scan_line_def Let_def set_set_add split: option.splits)

lemma distinct_scan_line: "distinct ports \<Longrightarrow> distinct (scan_line ports line)"
  by (auto simp: scan_line_def Let_def distinct_set_add split: option.splits)

lemma set_foldl_scan_line:
  "set (foldl scan_line ports lines) =
     set ports \<union> {port. \<exists>line\<in>set lines. \<exists>ds. port_match line = Some ds
                          \<and> port = parseInt ds
                          \<and> 1024 < port \<and> port \<noteq> 3000 \<and> port \<noteq> 3001}"
proof (induction lines arbitrary: ports)
  case Nil
  then show ?case by simp
next
  case (Cons line lines)
  show ?case
    unfolding foldl_Cons Cons.IH set_scan_line by auto
qed

lemma distinct_foldl_scan_line:
  "distinct ports \<Longrightarrow> distinct (foldl scan_line ports lines)"
  by (induction lines arbitrary: ports) (auto simp: distinct_scan_line)

text \<open>
  What the scan reports for an output that it can read: each port once, and exactly the
  ports above 1024 other than 3000 and 3001 that \<open>port_match\<close> finds in a line.
\<close>

lemma port_list_set:
  "set (port_list stdout) =
     {port. \<exists>line\<in>set (split_on (CHR 0x0A) stdout). \<exists>ds.
              port_match line = Some ds \<and> port = parseInt ds
              \<and> 1024 < port \<and> port \<noteq> 3000 \<and> port \<noteq> 3001}"
  and port_list_distinct: "distinct (port_list stdout)"
  by (simp_all add: port_list_def set_foldl_scan_line distinct_foldl_scan_line)

lemma contains_iff_sublist: "contains t s \<longleftrightarrow> sublist t s"
  by (induction s) (auto simp: sublist_Cons_right)

lemma dot_run_prefix: "prefix (dot_run s) s"
  by (induction s) auto

lemma drop_leading_suffix: "suffix (drop_leading ws s) s"
proof (induction ws s rule: drop_leading.induct)
  case (1 ws s)
  show ?case
  proof (cases "find (\<lambda>w. w \<noteq> [] \<and> prefix w s) ws")
    case None
    then show ?thesis by (subst drop_leading.simps) simp
  next
    case (Some w)
    with 1 have "suffix (drop_leading ws (drop (length w) s)) (drop (length w) s)"
      by simp
    then have "suffix (drop_leading ws (drop (length w) s)) s"
      using suffix_drop suffix_order.trans by blast
    with Some show ?thesis by (subst drop_leading.simps) simp
  qed
qed

text \<open>No port is found in a line that does not have the word \<open>LISTENING\<close>.\<close>

lemma port_match_needs_word: "port_match line = Some ds \<Longrightarrow> contains ''LISTENING'' line"
proof (induction line)
  case Nil
  then show ?case by simp
next
  case (Cons c cs)
  show ?case
  proof (cases "contains ''LISTENING'' cs")
    case True
    then show ?thesis by simp
  next
    case False
    have "\<not> contains ''LISTENING'' (dot_run (drop_leading white_space (dropWhile is_digit cs)))"
    proof
      assume "contains ''LISTENING'' (dot_run (drop_leading white_space (dropWhile is_digit cs)))"
      then have "sublist ''LISTENING'' (dot_run (drop_leading white_space (dropWhile is_digit cs)))"
        using contains_iff_sublist by blast
      also have "sublist \<dots> (drop_leading white_space (dropWhile is_digit cs))"
        by (rule prefix_imp_sublist [OF dot_run_prefix])
      also have "sublist \<dots> (dropWhile is_digit cs)"
        by (rule suffix_imp_sublist [OF drop_leading_suffix])
      also have "sublist \<dots> cs"
        by (rule suffix_imp_sublist [OF suffix_dropWhile])
      finally show False
        using False contains_iff_sublist by blast
    qed
    with Cons False show ?thesis
      by (auto simp: Let_def split: if_splits)
  qed
qed

text \<open>
  C8.  The ports reported form a set that leaves out the ports up to 1024, 3000 and 3001
  (\<open>port_list_set\<close>, \<open>port_list_distinct\<close>), and an error of the command gives the
  empty result and no event.  What \<open>netstat\<close> prints on Windows for listeners on 80,
  3000, 3001 and 5173 gives \<open>[5173]\<close>.  What \<open>ss -tlnp\<close>, the command of every other
  platform, prints for the same listeners gives no port at all: its lines say \<open>LISTEN\<close>,
  before the address, and the expression wants \<open>LISTENING\<close> behind the port
  (\<open>port_match_needs_word\<close>).
\<close>

theorem scanPorts_reads_netstat_only:
  "port_list netstat_sample = [5173]
   \<and> port_list ss_sample = []
   \<and> scan_command (posix_host process_cwd tmp home) = ''ss -tlnp''
   \<and> scanPorts_callback socket (Some ss_sample) = ([Emit socket (TerminalPorts [])], [])
   \<and> scanPorts_callback socket None = ([], [])"
proof -
  have n: "port_list netstat_sample = [5173]"
    by code_simp
  have s: "port_list ss_sample = []"
    by code_simp
  show ?thesis
    unfolding n s by (simp add: scanPorts_callback_def s scan_command_def posix_host_def)
qed

section \<open>Ending a session\<close>

text \<open>
  C9.  \<open>kill\<close> on a socket id that has a session kills the process attached to it, if
  there is one, and takes the session out of the registry; it emits nothing.  On a socket
  id without a session, and so when it is called a second time, it does nothing at all.
\<close>

theorem kill_twice:
  "(sessions m socketId = None \<longrightarrow> kill socketId m = ([], m))
   \<and> (sessions m socketId = Some a \<longrightarrow>
        fst (kill socketId m) = (case pty (heap m a) of None \<Rightarrow> [] | Some p \<Rightarrow> [PtyKill p])
        \<and> snd (kill socketId m) = m\<lparr>sessions := (sessions m)(socketId := None)\<rparr>)
   \<and> kill socketId (snd (kill socketId m)) = ([], snd (kill socketId m))
   \<and> run h [Kill socketId, Kill socketId] m = run h [Kill socketId] m"
  by (auto simp: kill_def split: option.splits)

theorem kill_twice_witness:
  "sessions (after sample_host [HandleInput empty_world ''s1'' ''node app.js'' 7]) ''s1'' = Some 0
   \<and> fst (kill ''s1'' (after sample_host [HandleInput empty_world ''s1'' ''node app.js'' 7]))
       = [PtyKill 0]
   \<and> sessions (snd (kill ''s1''
                 (after sample_host [HandleInput empty_world ''s1'' ''node app.js'' 7]))) ''s1''
       = None
   \<and> kill ''s1'' (snd (kill ''s1''
                 (after sample_host [HandleInput empty_world ''s1'' ''node app.js'' 7])))
       = ([], snd (kill ''s1''
                 (after sample_host [HandleInput empty_world ''s1'' ''node app.js'' 7])))
   \<and> kill ''s2'' (after sample_host [HandleInput empty_world ''s1'' ''node app.js'' 7])
       = ([], after sample_host [HandleInput empty_world ''s1'' ''node app.js'' 7])"
proof -
  let ?m = "after sample_host [HandleInput empty_world ''s1'' ''node app.js'' 7]"
  have s: "sessions ?m ''s1'' = Some 0" "pty (heap ?m 0) = Some 0" "sessions ?m ''s2'' = None"
    by code_simp+
  note k1 = kill_twice [of ?m "''s1''" 0 sample_host]
  note k2 = kill_twice [of ?m "''s2''" 0 sample_host]
  from k1 s(1) have "fst (kill ''s1'' ?m) = (case pty (heap ?m 0) of None \<Rightarrow> [] | Some p \<Rightarrow> [PtyKill p])"
    and gone: "snd (kill ''s1'' ?m) = ?m\<lparr>sessions := (sessions ?m)(''s1'' := None)\<rparr>"
    by blast+
  then have 1: "fst (kill ''s1'' ?m) = [PtyKill 0]"
    by (simp add: s(2))
  have 2: "sessions (snd (kill ''s1'' ?m)) ''s1'' = None"
    unfolding gone by simp
  from k1 have 3: "kill ''s1'' (snd (kill ''s1'' ?m)) = ([], snd (kill ''s1'' ?m))"
    by blast
  from k2 s(3) have 4: "kill ''s2'' ?m = ([], ?m)"
    by blast
  from s(1) 1 2 3 4 show ?thesis
    by (intro conjI)
qed

end
